theory Spec2Isabelle
  imports Complex_Main "HOL-Library.Word" "HOL-Library.Log_Nat"
begin

unbundle bit_operations_syntax

section \<open>Chamfer matching: a model of \<^verbatim>\<open>Chamfer/src/Chamfer.cpp\<close>\<close>

text \<open>
  The matcher of \<^verbatim>\<open>Chamfer.cpp\<close> is embedded function by function. C++ \<^verbatim>\<open>int\<close> values are
  modelled as \<open>int\<close>; every theorem that depends on the absence of overflow says so.
  Finite \<^verbatim>\<open>float\<close>/\<^verbatim>\<open>double\<close> quantities are modelled as rationals; the results of a
  division, which may be infinite or not a number, live in the type \<open>fp\<close> below. Rounding
  is modelled where the control flow depends on it, in the loop over the scales, whose
  variable is a \<^verbatim>\<open>float\<close>; the costs are exact.
\<close>

subsection \<open>Numbers\<close>

text \<open>
  A floating-point result: not a number, minus infinity, a finite value, plus infinity.
  The comparison \<open>fp_less\<close> is the C++ operator \<^verbatim>\<open><\<close> on such values: every comparison
  with a NaN is false.
\<close>

datatype fp = NaN | NInf | Fin rat | PInf

fun fp_less :: "fp \<Rightarrow> fp \<Rightarrow> bool" where
  "fp_less NaN _ = False"
| "fp_less _ NaN = False"
| "fp_less NInf NInf = False"
| "fp_less NInf _ = True"
| "fp_less (Fin a) (Fin b) = (a < b)"
| "fp_less (Fin a) PInf = True"
| "fp_less (Fin a) NInf = False"
| "fp_less PInf _ = False"

text \<open>\<open>fp_le\<close> is the C++ operator \<^verbatim>\<open><=\<close>.\<close>

fun fp_le :: "fp \<Rightarrow> fp \<Rightarrow> bool" where
  "fp_le NaN _ = False"
| "fp_le _ NaN = False"
| "fp_le a b = (a = b \<or> fp_less a b)"

text \<open>
  The quotient \<^verbatim>\<open>chamfer_dist / nbElements\<close> of a finite \<^verbatim>\<open>double\<close> by an \<^verbatim>\<open>int\<close>
  (converted to \<^verbatim>\<open>double\<close>): a division by zero does not trap, it gives NaN for
  \<open>0 / 0\<close> and an infinity of the sign of the numerator otherwise.
\<close>

definition fp_div :: "rat \<Rightarrow> int \<Rightarrow> fp" where
  "fp_div s n =
     (if n \<noteq> 0 then Fin (s / of_int n)
      else if s = 0 then NaN
      else if 0 < s then PInf else NInf)"

text \<open>The values of a C++ \<^verbatim>\<open>int\<close> of 32 bits.\<close>

definition int32 :: "int \<Rightarrow> bool" where
  "int32 i = (- 2147483648 \<le> i \<and> i < 2147483648)"

text \<open>\<^verbatim>\<open>std::numeric_limits<float>::max()\<close>.\<close>

definition FLT_MAX :: rat where
  "FLT_MAX = 340282346638528859811704183484516925440"

text \<open>
  Single precision: \<open>float_round q\<close> is the \<^verbatim>\<open>float\<close> nearest to \<open>q\<close>, ties to the even
  significand (24 bits, least exponent \<open>-126\<close>, subnormal below; values beyond the largest
  \<^verbatim>\<open>float\<close> are not met here). Two different values of the type differ by at least
  \<open>float_gap\<close>.
\<close>

definition pow2 :: "int \<Rightarrow> rat" where
  "pow2 e = (if 0 \<le> e then 2 ^ nat e else 1 / 2 ^ nat (- e))"

definition float_exponent :: "rat \<Rightarrow> int" where
  "float_exponent a =
     (case quotient_of a of (n, d) \<Rightarrow>
        let b = bitlen n - bitlen d in if pow2 b \<le> a then b else b - 1)"

definition round_half_even :: "rat \<Rightarrow> int" where
  "round_half_even x =
     (let f = \<lfloor>x\<rfloor>; r = x - of_int f
      in if r < 1 / 2 then f else if 1 / 2 < r then f + 1 else if even f then f else f + 1)"

definition float_round :: "rat \<Rightarrow> rat" where
  "float_round q =
     (if q = 0 then 0
      else let a = \<bar>q\<bar>; ulp = pow2 (max (float_exponent a) (- 126) - 23)
           in sgn q * of_int (round_half_even (a / ulp)) * ulp)"

definition float_gap :: rat where
  "float_gap = 1 / 2 ^ 149"

subsection \<open>Rectangles and detections\<close>

text \<open>\<^verbatim>\<open>cv::Point\<close> and \<^verbatim>\<open>cv::Rect\<close>: integer fields, no invariant enforced by the type.\<close>

record Point =
  pt_x :: int
  pt_y :: int

record Rect =
  rect_x :: int
  rect_y :: int
  rect_width :: int
  rect_height :: int

definition mkRect :: "int \<Rightarrow> int \<Rightarrow> int \<Rightarrow> int \<Rightarrow> Rect" where
  "mkRect x y w h = \<lparr>rect_x = x, rect_y = y, rect_width = w, rect_height = h\<rparr>"

text \<open>\<^verbatim>\<open>cv::Rect::area()\<close>.\<close>

definition area :: "Rect \<Rightarrow> int" where
  "area r = rect_width r * rect_height r"

text \<open>
  \<^verbatim>\<open>Detection_t\<close>: bounding box, cost, scale and template index. The constructor used by
  \<^verbatim>\<open>detect_impl\<close> gives no index; \<open>-1\<close> is the value \<^verbatim>\<open>groupDetections\<close> uses for
  ``no index''.
\<close>

record Detection_t =
  m_boundingBox :: Rect
  m_chamferDist :: fp
  m_scale :: rat
  m_templateIndex :: int

definition mkDetection :: "Rect \<Rightarrow> fp \<Rightarrow> rat \<Rightarrow> Detection_t" where
  "mkDetection r c s =
     \<lparr>m_boundingBox = r, m_chamferDist = c, m_scale = s, m_templateIndex = -1\<rparr>"

subsection \<open>Non-maximum suppression\<close>

text \<open>The test of line 1042: \<open>r1\<close> lies strictly inside \<open>r2\<close>, on all four edges.\<close>

definition is_inside :: "Rect \<Rightarrow> Rect \<Rightarrow> bool" where
  "is_inside r1 r2 =
     (rect_x r1 + rect_width r1 < rect_x r2 + rect_width r2 \<and> rect_x r1 > rect_x r2 \<and>
      rect_y r1 + rect_height r1 < rect_y r2 + rect_height r2 \<and> rect_y r1 > rect_y r2)"

text \<open>
  The inner loop over \<^verbatim>\<open>cpt2\<close>: the detections after \<^verbatim>\<open>cpt1\<close>, left to right, stopping
  at the first box that contains \<open>r1\<close>.
\<close>

fun inside_later :: "Rect \<Rightarrow> Detection_t list \<Rightarrow> bool" where
  "inside_later r1 [] = False"
| "inside_later r1 (d2 # ds) =
     (if is_inside r1 (m_boundingBox d2) then True else inside_later r1 ds)"

text \<open>The outer loop over \<^verbatim>\<open>cpt1\<close>, on the sorted copy.\<close>

fun nms_scan :: "Detection_t list \<Rightarrow> Detection_t list" where
  "nms_scan [] = []"
| "nms_scan (d # ds) =
     (if inside_later (m_boundingBox d) ds then nms_scan ds else d # nms_scan ds)"

text \<open>
  \<^verbatim>\<open>nonMaximaSuppression\<close>: the copy is sorted by area (\<^verbatim>\<open>less_than_area\<close>) and the
  survivors are appended to the output vector. \<^verbatim>\<open>std::sort\<close> leaves the order of equal
  areas open; the model sorts stably, and the lemmas on \<open>nms_scan\<close> hold for every list
  sorted by area.
\<close>

definition nonMaximaSuppression :: "Detection_t list \<Rightarrow> Detection_t list \<Rightarrow> Detection_t list" where
  "nonMaximaSuppression detections maximaDetections =
     maximaDetections @ nms_scan (sort_key (\<lambda>d. area (m_boundingBox d)) detections)"

text \<open>
  A box as the matcher produces it: width and height are not negative, and the corners
  and the area are values of \<^verbatim>\<open>int\<close>, so that the C++ computes them without overflow.
\<close>

definition box_ok :: "Detection_t \<Rightarrow> bool" where
  "box_ok d =
     (let r = m_boundingBox d
      in 0 \<le> rect_width r \<and> 0 \<le> rect_height r \<and> int32 (rect_x r) \<and> int32 (rect_y r) \<and>
         int32 (rect_x r + rect_width r) \<and> int32 (rect_y r + rect_height r) \<and> int32 (area r))"

subsection \<open>Failures, matrices\<close>

text \<open>
  What the C++ does besides returning: undefined behaviour (an access outside a row, a
  matrix or a vector, which \<^verbatim>\<open>ptr\<close>, \<^verbatim>\<open>at\<close> and \<^verbatim>\<open>operator[]\<close> do not check), an
  exception thrown by OpenCV or by \<^verbatim>\<open>new\<close>, a loop that never ends.
\<close>

datatype error = UndefinedBehaviour | Exception | NonTermination

type_synonym 'a result = "error + 'a"

definition bindR :: "'a result \<Rightarrow> ('a \<Rightarrow> 'b result) \<Rightarrow> 'b result" where
  "bindR r f = (case r of Inl e \<Rightarrow> Inl e | Inr v \<Rightarrow> f v)"

fun foldR :: "('a \<Rightarrow> 's \<Rightarrow> 's result) \<Rightarrow> 'a list \<Rightarrow> 's \<Rightarrow> 's result" where
  "foldR f [] s = Inr s"
| "foldR f (x # xs) s = (case f x s of Inl e \<Rightarrow> Inl e | Inr s' \<Rightarrow> foldR f xs s')"

text \<open>A \<^verbatim>\<open>cv::Mat\<close> with one channel: the list of its rows.\<close>

type_synonym 'a Mat = "'a list list"

definition mat_rows :: "'a Mat \<Rightarrow> int" where
  "mat_rows m = int (length m)"

definition mat_cols :: "'a Mat \<Rightarrow> int" where
  "mat_cols m = (case m of [] \<Rightarrow> 0 | r # _ \<Rightarrow> int (length r))"

definition mat_empty :: "'a Mat \<Rightarrow> bool" where
  "mat_empty m = (mat_rows m = 0 \<or> mat_cols m = 0)"

definition mat_in :: "'a Mat \<Rightarrow> int \<Rightarrow> int \<Rightarrow> bool" where
  "mat_in m y x = (0 \<le> y \<and> y < mat_rows m \<and> 0 \<le> x \<and> x < int (length (m ! nat y)))"

text \<open>\<^verbatim>\<open>m.ptr<T>(y)[x]\<close> and \<^verbatim>\<open>m.at<T>(y, x)\<close>, read and written.\<close>

definition mat_at :: "'a Mat \<Rightarrow> int \<Rightarrow> int \<Rightarrow> 'a result" where
  "mat_at m y x = (if mat_in m y x then Inr (m ! nat y ! nat x) else Inl UndefinedBehaviour)"

definition mat_set :: "'a Mat \<Rightarrow> int \<Rightarrow> int \<Rightarrow> 'a \<Rightarrow> 'a Mat result" where
  "mat_set m y x v =
     (if mat_in m y x then Inr (m[nat y := (m ! nat y)[nat x := v]]) else Inl UndefinedBehaviour)"

definition mat_const :: "int \<Rightarrow> int \<Rightarrow> 'a \<Rightarrow> 'a Mat" where
  "mat_const h w v = replicate (nat h) (replicate (nat w) v)"

text \<open>
  \<^verbatim>\<open>m(cv::Rect(x, y, w, h))\<close>: the sub-window; OpenCV throws when it does not lie in the
  matrix.
\<close>

definition mat_roi :: "'a Mat \<Rightarrow> int \<Rightarrow> int \<Rightarrow> int \<Rightarrow> int \<Rightarrow> 'a Mat result" where
  "mat_roi m x y w h =
     (if 0 \<le> x \<and> 0 \<le> w \<and> x + w \<le> mat_cols m \<and> 0 \<le> y \<and> 0 \<le> h \<and> y + h \<le> mat_rows m
      then Inr (map (\<lambda>r. take (nat w) (drop (nat x) r)) (take (nat h) (drop (nat y) m)))
      else Inl Exception)"

definition same_size :: "'a Mat \<Rightarrow> 'b Mat \<Rightarrow> bool" where
  "same_size a b = (map length a = map length b)"

text \<open>\<^verbatim>\<open>cv::absdiff\<close> followed by \<^verbatim>\<open>cv::sum\<close>; OpenCV throws on a size mismatch.\<close>

definition sum_absdiff :: "rat Mat \<Rightarrow> rat Mat \<Rightarrow> rat result" where
  "sum_absdiff a b =
     (if same_size a b
      then Inr (sum_list (map (\<lambda>(u, v). \<bar>u - v\<bar>) (zip (concat a) (concat b))))
      else Inl Exception)"

text \<open>
  \<^verbatim>\<open>src.copyTo(dst, mask)\<close> into a fresh matrix: the value where the mask is not zero,
  zero elsewhere.
\<close>

definition copy_masked :: "rat Mat \<Rightarrow> 8 word Mat \<Rightarrow> rat Mat result" where
  "copy_masked src msk =
     (if same_size src msk
      then Inr (map (\<lambda>(r, mr). map (\<lambda>(v, b). if b \<noteq> 0 then v else 0) (zip r mr)) (zip src msk))
      else Inl Exception)"

definition bitwise_or_mat :: "8 word Mat \<Rightarrow> 8 word Mat \<Rightarrow> 8 word Mat result" where
  "bitwise_or_mat a b =
     (if same_size a b
      then Inr (map (\<lambda>(r, s). map (\<lambda>(u, v). u OR v) (zip r s)) (zip a b))
      else Inl Exception)"

definition countNonZero :: "8 word Mat \<Rightarrow> int" where
  "countNonZero m = int (length (filter (\<lambda>b. b \<noteq> 0) (concat m)))"

subsection \<open>The matcher's data\<close>

text \<open>An 8-bit image: \<^verbatim>\<open>rows\<close>, \<^verbatim>\<open>cols\<close>, \<^verbatim>\<open>channels()\<close> and the bytes at \<^verbatim>\<open>data\<close>.\<close>

record Image =
  img_rows :: int
  img_cols :: int
  img_channels :: int
  img_data :: "8 word list"

record Line_info_t =
  m_length :: rat
  m_rho :: rat
  m_theta :: rat
  m_pointStart :: Point
  m_PointEnd :: Point

text \<open>
  \<^verbatim>\<open>Template_info_t\<close> and \<^verbatim>\<open>Query_info_t\<close>, with the fields that \<^verbatim>\<open>Chamfer.cpp\<close> reads.
  The fields of the query carry the prefix \<open>q_\<close> where the template has a field of the
  same name.
\<close>

record Template_info_t =
  m_contours :: "Point list list"
  m_distImg :: "rat Mat"
  m_edgesOrientation :: "rat list list"
  m_gridDescriptors :: "(rat \<times> rat) list"
  m_gridDescriptorsLocations :: "Point list"
  m_mapOfEdgeOrientation :: "rat Mat"
  m_mask :: "8 word Mat"
  m_vectorOfContourLines :: "Line_info_t list list"
  m_templateLocation :: Rect
  m_queryROI :: Rect

record Query_info_t =
  q_contours :: "Point list list"
  q_distImg :: "rat Mat"
  q_img :: Image
  q_mapOfEdgeOrientation :: "rat Mat"
  q_edgesOrientation :: "rat list list"
  q_mask :: "8 word Mat"
  q_vectorOfContourLines :: "Line_info_t list list"

datatype MatchingStrategyType = templateMatching | templatePoseMatching

datatype MatchingType =
  edgeMatching | edgeForwardBackwardMatching | fullMatching | maskMatching |
  forwardBackwardMaskMatching | lineMatching | lineForwardBackwardMatching

datatype RejectionType = noRejection | gridDescriptorRejection

text \<open>
  The members of \<^verbatim>\<open>ChamferMatcher\<close>. A \<^verbatim>\<open>std::map\<close> is the list of its entries in
  increasing key order, the order in which the code iterates.
\<close>

record ChamferMatcher =
  m_cannyThreshold :: rat
  m_maxDescriptorDistanceError :: rat
  m_maxDescriptorOrientationError :: rat
  m_minNbDescriptorMatches :: int
  m_gridDescriptorSize :: "int \<times> int"
  m_matchingStrategyType :: MatchingStrategyType
  m_matchingType :: MatchingType
  m_query_info :: Query_info_t
  m_mapOfTemplate_info :: "(int \<times> (rat \<times> Template_info_t) list) list"
  m_mapOfTemplateImages :: "(int \<times> Image) list"
  m_rejectionType :: RejectionType
  m_scaleMax :: rat
  m_scaleMin :: rat
  m_scaleStep :: rat

text \<open>\<^verbatim>\<open>map[k] = v\<close> on a \<^verbatim>\<open>std::map\<close>.\<close>

fun map_set :: "'k::linorder \<Rightarrow> 'v \<Rightarrow> ('k \<times> 'v) list \<Rightarrow> ('k \<times> 'v) list" where
  "map_set k v [] = [(k, v)]"
| "map_set k v ((k', v') # r) =
     (if k < k' then (k, v) # (k', v') # r
      else if k = k' then (k, v) # r
      else (k', v') # map_set k v r)"

text \<open>
  The collaborators: what is not in \<^verbatim>\<open>Chamfer.cpp\<close> (OpenCV, \<^verbatim>\<open>Utils.hpp\<close> and the header
  \<^verbatim>\<open>Chamfer.hpp\<close>), and the preparation of the query. In the preparation of a template
  the calls of OpenCV may throw.
  \<^item> \<open>ext_prepareQuery\<close>: the pipeline of Canny edges, distance transform and contours
    behind \<^verbatim>\<open>prepareQuery\<close>, taken as a whole, from the Canny threshold and the image;
  \<^item> \<open>ext_resize\<close>: \<^verbatim>\<open>cv::resize\<close> by a scale factor;
  \<^item> \<open>ext_getMinAngleError\<close>: \<^verbatim>\<open>getMinAngleError(a, b, false, true)\<close>;
  \<^item> \<open>ext_lineIterator\<close>: the pixels of \<^verbatim>\<open>cv::LineIterator\<close> on an image of the given rows
    and columns;
  \<^item> \<open>ext_minMaxLoc\<close>: the minimum of \<^verbatim>\<open>cv::minMaxLoc\<close> and its location;
  \<^item> \<open>ext_overlapPercentage\<close>: the default overlap of \<^verbatim>\<open>groupDetections\<close>, declared in
    the header;
  \<^item> \<open>ext_Canny\<close>: \<^verbatim>\<open>cv::Canny\<close> with its two thresholds;
  \<^item> \<open>ext_distanceTransform\<close>: the distances and the labels of \<^verbatim>\<open>cv::distanceTransform\<close>;
  \<^item> \<open>ext_findContours\<close>, \<open>ext_drawContours\<close>, \<open>ext_approxPolyDP\<close>: \<^verbatim>\<open>cv::findContours\<close>,
    \<^verbatim>\<open>cv::drawContours\<close> of one contour, filled with 255, and \<^verbatim>\<open>cv::approxPolyDP\<close>;
  \<^item> \<open>ext_lineAngle\<close>: the angle that \<^verbatim>\<open>getPolarLineEquation\<close> gives for two points;
  \<^item> \<open>ext_Template_info\<close>: the constructor of \<^verbatim>\<open>Template_info_t\<close>, declared in the header,
    from its seven arguments;
  \<^item> \<open>ext_contourThreshold\<close>, \<open>ext_maskThreshold\<close>, \<open>ext_minContourPoints\<close>, \<open>ext_epsilon\<close>:
    the default arguments of \<^verbatim>\<open>getContours\<close>, \<^verbatim>\<open>createTemplateMask\<close>,
    \<^verbatim>\<open>filterSingleContourPoint\<close> and \<^verbatim>\<open>approximateContours\<close>, declared in the header.
\<close>

record Ext =
  ext_prepareQuery :: "rat \<Rightarrow> Image \<Rightarrow> Query_info_t"
  ext_resize :: "Image \<Rightarrow> rat \<Rightarrow> Image result"
  ext_getMinAngleError :: "rat \<Rightarrow> rat \<Rightarrow> rat"
  ext_lineIterator :: "int \<Rightarrow> int \<Rightarrow> Point \<Rightarrow> Point \<Rightarrow> Point list"
  ext_minMaxLoc :: "fp Mat \<Rightarrow> fp \<times> Point"
  ext_overlapPercentage :: rat
  ext_Canny :: "Image \<Rightarrow> rat \<Rightarrow> rat \<Rightarrow> 8 word Mat result"
  ext_distanceTransform :: "8 word Mat \<Rightarrow> (rat Mat \<times> int Mat) result"
  ext_findContours :: "8 word Mat \<Rightarrow> Point list list result"
  ext_drawContours :: "8 word Mat \<Rightarrow> Point list list \<Rightarrow> nat \<Rightarrow> 8 word Mat result"
  ext_approxPolyDP :: "Point list \<Rightarrow> rat \<Rightarrow> Point list result"
  ext_lineAngle :: "Point \<Rightarrow> Point \<Rightarrow> rat"
  ext_Template_info ::
    "Point list list \<Rightarrow> rat Mat \<Rightarrow> rat list list \<Rightarrow> int \<times> int \<Rightarrow> rat Mat \<Rightarrow> 8 word Mat \<Rightarrow>
     Line_info_t list list \<Rightarrow> Template_info_t"
  ext_contourThreshold :: rat
  ext_maskThreshold :: rat
  ext_minContourPoints :: nat
  ext_epsilon :: rat

definition prepareQuery :: "Ext \<Rightarrow> ChamferMatcher \<Rightarrow> Image \<Rightarrow> ChamferMatcher" where
  "prepareQuery E m img_query = m\<lparr>m_query_info := ext_prepareQuery E (m_cannyThreshold m) img_query\<rparr>"

subsection \<open>Cost evaluation\<close>

text \<open>
  The points of a vector of vectors with their indexes \<open>i\<close>, \<open>j\<close>, in the order of the
  two nested loops, and the read \<^verbatim>\<open>v[i][j]\<close>.
\<close>

definition indexed :: "'a list list \<Rightarrow> (nat \<times> nat \<times> 'a) list" where
  "indexed xss =
     concat (map (\<lambda>(i, xs). map (\<lambda>(j, x). (i, j, x)) (enumerate 0 xs)) (enumerate 0 xss))"

definition vec_at :: "'a list list \<Rightarrow> nat \<Rightarrow> nat \<Rightarrow> 'a result" where
  "vec_at xss i j =
     (if i < length xss \<and> j < length (xss ! i) then Inr (xss ! i ! j) else Inl UndefinedBehaviour)"

text \<open>
  The loops of \<^verbatim>\<open>computeChamferDistance\<close> carry the pair
  \<open>(chamfer_dist, nbElements)\<close>. Lines 187 to 213: one template contour point of the
  forward pass; \<^verbatim>\<open>nbElements\<close> is incremented in the header of the loop.
\<close>

definition edge_forward_point ::
  "Ext \<Rightarrow> Query_info_t \<Rightarrow> Template_info_t \<Rightarrow> int \<Rightarrow> int \<Rightarrow> bool \<Rightarrow> rat \<Rightarrow> rat \<Rightarrow>
   nat \<times> nat \<times> Point \<Rightarrow> rat \<times> int \<Rightarrow> (rat \<times> int) result" where
  "edge_forward_point E q t offsetX offsetY useOrientation lambda weight_forward =
     (\<lambda>(i, j, p) (chamfer_dist, nbElements).
        let x = pt_x p; y = pt_y p in
        if useOrientation then
          bindR (mat_at (q_distImg q) (y + offsetY) (x + offsetX)) (\<lambda>d.
          bindR (vec_at (m_edgesOrientation t) i j) (\<lambda>t_ori.
          bindR (mat_at (q_mapOfEdgeOrientation q) (y + offsetY) (x + offsetX)) (\<lambda>q_ori.
            Inr (chamfer_dist + weight_forward * (d + lambda * ext_getMinAngleError E t_ori q_ori),
                 nbElements + 1))))
        else
          bindR (mat_at (q_distImg q) (y + offsetY) (x + offsetX)) (\<lambda>d.
            Inr (chamfer_dist + weight_forward * d, nbElements + 1)))"

text \<open>
  Lines 217 to 248: one query contour point of the backward pass. The header of the
  loop reads \<^verbatim>\<open>j++, nbElements\<close>: the count is not incremented. Without orientation,
  line 238 reads the template's distance image at \<^verbatim>\<open>(y, x)\<close>.
\<close>

definition edge_backward_point ::
  "Ext \<Rightarrow> Query_info_t \<Rightarrow> Template_info_t \<Rightarrow> int \<Rightarrow> int \<Rightarrow> bool \<Rightarrow> rat \<Rightarrow> rat \<Rightarrow>
   nat \<times> nat \<times> Point \<Rightarrow> rat \<times> int \<Rightarrow> (rat \<times> int) result" where
  "edge_backward_point E q t offsetX offsetY useOrientation lambda weight_backward =
     (\<lambda>(i, j, p) (chamfer_dist, nbElements).
        let x = pt_x p; y = pt_y p in
        if offsetX \<le> x \<and> x < offsetX + mat_cols (m_distImg t) \<and>
           offsetY \<le> y \<and> y < offsetY + mat_rows (m_distImg t) then
          if useOrientation then
            bindR (mat_at (m_distImg t) (y - offsetY) (x - offsetX)) (\<lambda>d.
            bindR (vec_at (q_edgesOrientation q) i j) (\<lambda>q_ori.
            bindR (mat_at (m_mapOfEdgeOrientation t) (y - offsetY) (x - offsetX)) (\<lambda>t_ori.
              Inr (chamfer_dist + weight_backward * (d + lambda * ext_getMinAngleError E q_ori t_ori),
                   nbElements))))
          else
            bindR (mat_at (m_distImg t) y x) (\<lambda>d.
              Inr (chamfer_dist + weight_backward * d, nbElements))
        else Inr (chamfer_dist, nbElements))"

text \<open>
  Lines 141 to 181: one pixel of a rasterised line, forward (the query's fields) and
  backward (the template's fields). Both loops increment \<^verbatim>\<open>nbElements\<close>.
\<close>

definition line_forward_pixel ::
  "Ext \<Rightarrow> Query_info_t \<Rightarrow> Template_info_t \<Rightarrow> bool \<Rightarrow> rat \<Rightarrow> rat \<Rightarrow>
   Point \<Rightarrow> rat \<times> int \<Rightarrow> (rat \<times> int) result" where
  "line_forward_pixel E q t useOrientation lambda weight_forward =
     (\<lambda>pos (chamfer_dist, nbElements).
        if useOrientation then
          bindR (mat_at (q_distImg q) (pt_y pos) (pt_x pos)) (\<lambda>d.
          bindR (mat_at (m_mapOfEdgeOrientation t) (pt_y pos) (pt_x pos)) (\<lambda>t_ori.
          bindR (mat_at (q_mapOfEdgeOrientation q) (pt_y pos) (pt_x pos)) (\<lambda>q_ori.
            Inr (chamfer_dist + weight_forward * (d + lambda * ext_getMinAngleError E t_ori q_ori),
                 nbElements + 1))))
        else
          bindR (mat_at (q_distImg q) (pt_y pos) (pt_x pos)) (\<lambda>d.
            Inr (chamfer_dist + weight_forward * d, nbElements + 1)))"

definition line_backward_pixel ::
  "Ext \<Rightarrow> Query_info_t \<Rightarrow> Template_info_t \<Rightarrow> bool \<Rightarrow> rat \<Rightarrow> rat \<Rightarrow>
   Point \<Rightarrow> rat \<times> int \<Rightarrow> (rat \<times> int) result" where
  "line_backward_pixel E q t useOrientation lambda weight_backward =
     (\<lambda>pos (chamfer_dist, nbElements).
        if useOrientation then
          bindR (mat_at (m_distImg t) (pt_y pos) (pt_x pos)) (\<lambda>d.
          bindR (mat_at (q_mapOfEdgeOrientation q) (pt_y pos) (pt_x pos)) (\<lambda>q_ori.
          bindR (mat_at (m_mapOfEdgeOrientation t) (pt_y pos) (pt_x pos)) (\<lambda>t_ori.
            Inr (chamfer_dist + weight_backward * (d + lambda * ext_getMinAngleError E q_ori t_ori),
                 nbElements + 1))))
        else
          bindR (mat_at (m_distImg t) (pt_y pos) (pt_x pos)) (\<lambda>d.
            Inr (chamfer_dist + weight_backward * d, nbElements + 1)))"

text \<open>The pixels that \<^verbatim>\<open>cv::LineIterator\<close> visits for the lines of all contours, in order.\<close>

definition line_pixels :: "Ext \<Rightarrow> 'a Mat \<Rightarrow> Line_info_t list list \<Rightarrow> Point list" where
  "line_pixels E img liness =
     concat (map (\<lambda>l. ext_lineIterator E (mat_rows img) (mat_cols img) (m_pointStart l) (m_PointEnd l))
                 (concat liness))"

text \<open>\<^verbatim>\<open>computeChamferDistance\<close>, lines 123 to 253.\<close>

definition computeChamferDistance ::
  "Ext \<Rightarrow> ChamferMatcher \<Rightarrow> Template_info_t \<Rightarrow> int \<Rightarrow> int \<Rightarrow> bool \<Rightarrow> rat \<Rightarrow> rat \<Rightarrow> rat \<Rightarrow>
   fp result" where
  "computeChamferDistance E m template_info offsetX offsetY useOrientation lambda
       weight_forward weight_backward =
     (let q = m_query_info m in
      bindR
        (if m_matchingType m = lineMatching \<or> m_matchingType m = lineForwardBackwardMatching then
           bindR (foldR (line_forward_pixel E q template_info useOrientation lambda weight_forward)
                    (line_pixels E (q_distImg q) (m_vectorOfContourLines template_info)) (0, 0))
             (\<lambda>acc.
                if m_matchingType m = lineForwardBackwardMatching then
                  foldR (line_backward_pixel E q template_info useOrientation lambda weight_backward)
                    (line_pixels E (m_distImg template_info) (q_vectorOfContourLines q)) acc
                else Inr acc)
         else
           bindR (foldR (edge_forward_point E q template_info offsetX offsetY useOrientation lambda
                           weight_forward)
                    (indexed (m_contours template_info)) (0, 0))
             (\<lambda>acc.
                if m_matchingType m = edgeForwardBackwardMatching then
                  foldR (edge_backward_point E q template_info offsetX offsetY useOrientation lambda
                           weight_backward)
                    (indexed (q_contours q)) acc
                else Inr acc))
        (\<lambda>(chamfer_dist, nbElements). Inr (fp_div chamfer_dist nbElements)))"

text \<open>\<^verbatim>\<open>computeFullChamferDistance\<close>, lines 283 to 393.\<close>

definition computeFullChamferDistance ::
  "ChamferMatcher \<Rightarrow> Template_info_t \<Rightarrow> int \<Rightarrow> int \<Rightarrow> bool \<Rightarrow> rat \<Rightarrow> fp result" where
  "computeFullChamferDistance m template_info offsetX offsetY useOrientation lambda =
     (let q = m_query_info m;
          tcols = mat_cols (m_distImg template_info);
          trows = mat_rows (m_distImg template_info) in
      bindR (mat_roi (q_distImg q) offsetX offsetY tcols trows) (\<lambda>subDistImg.
      bindR (mat_roi (q_mapOfEdgeOrientation q) offsetX offsetY tcols trows) (\<lambda>subEdgeOriImg.
      if m_matchingType m = fullMatching then
        bindR (sum_absdiff subDistImg (m_distImg template_info)) (\<lambda>s1.
        bindR (if useOrientation
               then bindR (sum_absdiff subEdgeOriImg (m_mapOfEdgeOrientation template_info))
                      (\<lambda>s2. Inr (s1 + lambda * s2))
               else Inr s1) (\<lambda>chamfer_dist.
          Inr (fp_div chamfer_dist (mat_rows subDistImg * mat_cols subDistImg))))
      else
        bindR (if m_matchingType m = forwardBackwardMaskMatching
               then bindR (mat_roi (q_mask q) offsetX offsetY tcols trows)
                      (\<lambda>query_mask. bitwise_or_mat (m_mask template_info) query_mask)
               else Inr (m_mask template_info)) (\<lambda>common_mask.
        bindR (copy_masked subDistImg common_mask) (\<lambda>subDistImg_masked.
        bindR (copy_masked (m_distImg template_info) common_mask) (\<lambda>templateDistImg_masked.
        bindR (sum_absdiff subDistImg_masked templateDistImg_masked) (\<lambda>s1.
        bindR (if useOrientation
               then bindR (copy_masked subEdgeOriImg common_mask) (\<lambda>subEdgeOriImg_masked.
                    bindR (copy_masked (m_mapOfEdgeOrientation template_info) common_mask)
                      (\<lambda>templateEdgeOrientation_masked.
                    bindR (sum_absdiff subEdgeOriImg_masked templateEdgeOrientation_masked)
                      (\<lambda>s2. Inr (s1 + lambda * s2))))
               else Inr s1) (\<lambda>chamfer_dist.
          Inr (fp_div chamfer_dist (countNonZero common_mask))))))))))"

subsection \<open>The search: \<^verbatim>\<open>computeMatchingMap\<close>\<close>

text \<open>
  The values of the variable of \<^verbatim>\<open>for(int i = start; i < end; i += step)\<close>. With a step
  that is not positive the C++ loop does not end; \<open>grid_cells\<close> reports it.
\<close>

function for_range :: "int \<Rightarrow> int \<Rightarrow> int \<Rightarrow> int list" where
  "for_range i e step = (if 0 < step \<and> i < e then i # for_range (i + step) e step else [])"
  by pat_completeness auto
termination
  by (relation "measure (\<lambda>(i, e, step). nat (e - i))") auto

definition grid_cells :: "int \<Rightarrow> int \<Rightarrow> int \<Rightarrow> int \<Rightarrow> int \<Rightarrow> int \<Rightarrow> (int \<times> int) list result" where
  "grid_cells startI endI yStep startJ endJ xStep =
     (if startI < endI \<and> (yStep \<le> 0 \<or> (startJ < endJ \<and> xStep \<le> 0)) then Inl NonTermination
      else Inr (concat (map (\<lambda>i. map (\<lambda>j. (i, j)) (for_range startJ endJ xStep))
                            (for_range startI endI yStep))))"

definition list_at :: "'a list \<Rightarrow> nat \<Rightarrow> 'a result" where
  "list_at xs i = (if i < length xs then Inr (xs ! i) else Inl UndefinedBehaviour)"

text \<open>Lines 439 to 453: the number of grid descriptors that match at the offset \<open>(j, i)\<close>.\<close>

definition nbDescriptorMatches :: "ChamferMatcher \<Rightarrow> Template_info_t \<Rightarrow> int \<Rightarrow> int \<Rightarrow> int result" where
  "nbDescriptorMatches m template_info i j =
     foldR (\<lambda>cpt nbMatches.
        let loc = m_gridDescriptorsLocations template_info ! cpt;
            lx = pt_x loc + j; ly = pt_y loc + i in
        bindR (mat_at (q_distImg (m_query_info m)) ly lx) (\<lambda>query_dist.
        bindR (mat_at (q_mapOfEdgeOrientation (m_query_info m)) ly lx) (\<lambda>query_orientation.
        bindR (list_at (m_gridDescriptors template_info) cpt) (\<lambda>(template_dist, template_orientation).
          Inr (if \<bar>query_dist - template_dist\<bar> < m_maxDescriptorDistanceError m \<and>
                  \<bar>query_orientation - template_orientation\<bar> < m_maxDescriptorOrientationError m
               then nbMatches + 1 else nbMatches)))))
       [0..<length (m_gridDescriptorsLocations template_info)] 0"

text \<open>
  \<^verbatim>\<open>computeMatchingMap\<close>, lines 398 to 529. The map \<^verbatim>\<open>chamferMap\<close> comes in and goes
  out; the two loops over the grid run in parallel in the C++ and write disjoint cells.
  The cost, a \<^verbatim>\<open>double\<close>, is stored in a \<^verbatim>\<open>float\<close> cell; the rounding is not modelled.
\<close>

definition computeMatchingMap ::
  "Ext \<Rightarrow> ChamferMatcher \<Rightarrow> Template_info_t \<Rightarrow> fp Mat \<Rightarrow> bool \<Rightarrow> int \<Rightarrow> int \<Rightarrow> rat \<Rightarrow> rat \<Rightarrow> rat \<Rightarrow>
   fp Mat result" where
  "computeMatchingMap E m template_info chamferMap useOrientation xStep yStep lambda
       weight_forward weight_backward =
     (let chamferMapWidth = mat_cols (q_distImg (m_query_info m)) - mat_cols (m_distImg template_info) + 1;
          chamferMapHeight = mat_rows (q_distImg (m_query_info m)) - mat_rows (m_distImg template_info) + 1
      in
      if chamferMapWidth \<le> 0 \<or> chamferMapHeight \<le> 0 then Inr chamferMap
      else
        let chamferMap1 = mat_const chamferMapHeight chamferMapWidth (Fin FLT_MAX);
            roi = m_queryROI template_info;
            pose = (m_matchingStrategyType m = templatePoseMatching);
            startI = (if pose then rect_y (m_templateLocation template_info) else rect_y roi);
            endI = (if pose then startI + 1
                    else if rect_height roi > 0 then startI + rect_height roi else chamferMapHeight);
            startJ = (if pose then rect_x (m_templateLocation template_info) else rect_x roi);
            endJ = (if pose then startJ + 1
                    else if rect_width roi > 0 then startJ + rect_width roi else chamferMapWidth)
        in
        bindR (grid_cells startI endI yStep startJ endJ xStep) (\<lambda>cells.
        bindR (if m_rejectionType m = gridDescriptorRejection then
                 foldR (\<lambda>(i, j) rejection_mask.
                    bindR (nbDescriptorMatches m template_info i j) (\<lambda>nbMatches.
                      if nbMatches < m_minNbDescriptorMatches m
                      then mat_set rejection_mask i j 0 else Inr rejection_mask))
                   cells (mat_const chamferMapHeight chamferMapWidth (1 :: 8 word))
               else Inr (mat_const chamferMapHeight chamferMapWidth (1 :: 8 word)))
          (\<lambda>rejection_mask.
             foldR (\<lambda>(i, j) cm.
                bindR (mat_at rejection_mask i j) (\<lambda>r.
                  if r = 0 then Inr cm
                  else
                    bindR (if m_matchingType m = edgeMatching \<or>
                              m_matchingType m = edgeForwardBackwardMatching
                           then computeChamferDistance E m template_info j i useOrientation lambda
                                  weight_forward weight_backward
                           else computeFullChamferDistance m template_info j i useOrientation lambda)
                      (\<lambda>c. mat_set cm i j c)))
               cells chamferMap1)))"

subsection \<open>Detections: \<^verbatim>\<open>groupDetections\<close>, \<^verbatim>\<open>detect_impl\<close>, \<^verbatim>\<open>detect\<close>, \<^verbatim>\<open>detectMultiScale\<close>\<close>

text \<open>Sums and means of costs, as \<^verbatim>\<open>double\<close> arithmetic does them on infinities and NaN.\<close>

fun fp_add :: "fp \<Rightarrow> fp \<Rightarrow> fp" where
  "fp_add NaN _ = NaN"
| "fp_add _ NaN = NaN"
| "fp_add PInf NInf = NaN"
| "fp_add NInf PInf = NaN"
| "fp_add PInf _ = PInf"
| "fp_add _ PInf = PInf"
| "fp_add NInf _ = NInf"
| "fp_add _ NInf = NInf"
| "fp_add (Fin a) (Fin b) = Fin (a + b)"

fun fp_div_size :: "fp \<Rightarrow> nat \<Rightarrow> fp" where
  "fp_div_size (Fin a) n = fp_div a (int n)"
| "fp_div_size v n = v"

text \<open>The conversion of a \<^verbatim>\<open>double\<close> to \<^verbatim>\<open>int\<close>: towards zero.\<close>

definition trunc :: "rat \<Rightarrow> int" where
  "trunc q = (if 0 \<le> q then \<lfloor>q\<rfloor> else \<lceil>q\<rceil>)"

text \<open>\<^verbatim>\<open>cv::Rect(pt1, pt2)\<close> and the intersection \<^verbatim>\<open>a & b\<close> of OpenCV.\<close>

definition rect_of_points :: "Point \<Rightarrow> Point \<Rightarrow> Rect" where
  "rect_of_points pt1 pt2 =
     mkRect (min (pt_x pt1) (pt_x pt2)) (min (pt_y pt1) (pt_y pt2))
            (max (pt_x pt1) (pt_x pt2) - min (pt_x pt1) (pt_x pt2))
            (max (pt_y pt1) (pt_y pt2) - min (pt_y pt1) (pt_y pt2))"

definition rect_and :: "Rect \<Rightarrow> Rect \<Rightarrow> Rect" where
  "rect_and a b =
     (let x1 = max (rect_x a) (rect_x b); y1 = max (rect_y a) (rect_y b);
          w = min (rect_x a + rect_width a) (rect_x b + rect_width b) - x1;
          h = min (rect_y a + rect_height a) (rect_y b + rect_height b) - y1
      in if w \<le> 0 \<or> h \<le> 0 then mkRect 0 0 0 0 else mkRect x1 y1 w h)"

text \<open>Lines 866 to 870: the overlap of two detections exceeds the threshold.\<close>

definition overlapping :: "rat \<Rightarrow> Detection_t \<Rightarrow> Detection_t \<Rightarrow> bool" where
  "overlapping overlapPercentage d1 d2 =
     (let r_intersect = rect_and (m_boundingBox d1) (m_boundingBox d2);
          overlapping_percentage =
            fp_div (of_int (area r_intersect))
              (area (m_boundingBox d1) + area (m_boundingBox d2) - area r_intersect)
      in fp_less (Fin overlapPercentage) overlapping_percentage)"

text \<open>
  Lines 855 to 879: each detection not yet picked opens a cluster and takes the later
  detections, not yet picked, that overlap it.
\<close>

function clusters :: "rat \<Rightarrow> Detection_t list \<Rightarrow> Detection_t list list" where
  "clusters ov [] = []"
| "clusters ov (d # ds) =
     (d # filter (overlapping ov d) ds) # clusters ov (filter (\<lambda>e. \<not> overlapping ov d e) ds)"
  by pat_completeness auto
termination
  by (relation "measure (\<lambda>(ov, ds). length ds)") (auto simp: less_Suc_eq_le)

text \<open>
  Lines 900 to 907: the index with the most occurrences, the smallest one among equals
  (the \<^verbatim>\<open>std::map\<close> is visited in key order).
\<close>

definition maxOccurrenceIndex :: "int list \<Rightarrow> int" where
  "maxOccurrenceIndex ids =
     fst (fold (\<lambda>k (best, maxOccurrence).
                  if maxOccurrence < int (count_list ids k) then (k, int (count_list ids k))
                  else (best, maxOccurrence))
               (sort (remdups ids)) (-1, 0))"

definition cluster_detection :: "Detection_t list \<Rightarrow> Detection_t" where
  "cluster_detection c =
     (let n = length c;
          xMean = of_int (sum_list (map (\<lambda>d. rect_x (m_boundingBox d)) c)) / of_nat n;
          yMean = of_int (sum_list (map (\<lambda>d. rect_y (m_boundingBox d)) c)) / of_nat n;
          distMean = fp_div_size (fold (\<lambda>d a. fp_add a (m_chamferDist d)) c (Fin 0)) n;
          scaleMean = sum_list (map m_scale c) / of_nat n
      in \<lparr>m_boundingBox = mkRect (trunc xMean) (trunc yMean)
                             (rect_width (m_boundingBox (hd c))) (rect_height (m_boundingBox (hd c))),
          m_chamferDist = distMean, m_scale = scaleMean,
          m_templateIndex = maxOccurrenceIndex (map m_templateIndex c)\<rparr>)"

text \<open>\<^verbatim>\<open>groupDetections\<close>: one detection for each cluster, appended to the output vector.\<close>

definition groupDetections :: "Detection_t list \<Rightarrow> Detection_t list \<Rightarrow> rat \<Rightarrow> Detection_t list" where
  "groupDetections detections groupedDetections overlapPercentage =
     groupedDetections @ map cluster_detection (clusters overlapPercentage detections)"

text \<open>
  \<^verbatim>\<open>std::sort\<close> of detections with the \<^verbatim>\<open>operator<\<close> of \<^verbatim>\<open>Detection_t\<close>: by increasing cost
  (the comments of lines 616, 665 and 724).
\<close>

fun insert_detection :: "Detection_t \<Rightarrow> Detection_t list \<Rightarrow> Detection_t list" where
  "insert_detection d [] = [d]"
| "insert_detection d (e # es) =
     (if fp_less (m_chamferDist e) (m_chamferDist d) then e # insert_detection d es else d # e # es)"

definition sortDetections :: "Detection_t list \<Rightarrow> Detection_t list" where
  "sortDetections ds = foldr insert_detection ds []"

text \<open>
  A reference for \<^verbatim>\<open>cv::minMaxLoc\<close>: the first cell, in row order, that holds the least
  value. It is never applied to an empty map.
\<close>

fun min_scan :: "(nat \<times> nat \<times> fp) list \<Rightarrow> nat \<times> nat \<times> fp \<Rightarrow> nat \<times> nat \<times> fp" where
  "min_scan [] b = b"
| "min_scan (c # cs) b = min_scan cs (if fp_less (snd (snd c)) (snd (snd b)) then c else b)"

definition minMaxLoc_ref :: "fp Mat \<Rightarrow> fp \<times> Point" where
  "minMaxLoc_ref m =
     (case indexed m of
        [] \<Rightarrow> (Fin 0, \<lparr>pt_x = 0, pt_y = 0\<rparr>)
      | c # cs \<Rightarrow> (case min_scan cs c of (i, j, v) \<Rightarrow> (v, \<lparr>pt_x = int j, pt_y = int i\<rparr>)))"

text \<open>
  The \<^verbatim>\<open>do ... while\<close> of lines 588 to 607. \<open>iteration0\<close> is the value of \<^verbatim>\<open>iteration\<close> on
  entry to the body.
\<close>

definition maxLoopIterations :: nat where
  "maxLoopIterations = 100"

text \<open>Lines 598 to 604: the detection for the minimum \<open>minVal\<close> found at \<open>minLoc\<close>.\<close>

definition new_detection :: "Template_info_t \<Rightarrow> rat \<Rightarrow> fp \<Rightarrow> Point \<Rightarrow> Detection_t" where
  "new_detection template_info scale minVal minLoc =
     (let pt1 = \<lparr>pt_x = pt_x minLoc, pt_y = pt_y minLoc\<rparr>;
          pt2 = \<lparr>pt_x = pt_x pt1 + mat_cols (m_distImg template_info),
                 pt_y = pt_y pt1 + mat_rows (m_distImg template_info)\<rparr>
      in mkDetection (rect_of_points pt1 pt2) minVal scale)"

function detect_loop ::
  "Ext \<Rightarrow> Template_info_t \<Rightarrow> rat \<Rightarrow> fp \<Rightarrow> nat \<Rightarrow> fp Mat \<Rightarrow> Detection_t list \<Rightarrow>
   (fp Mat \<times> Detection_t list) result" where
  "detect_loop E template_info scale distanceThresh iteration0 chamferMap all_detections =
     (let iteration = iteration0 + 1;
          (minVal, minLoc) = ext_minMaxLoc E chamferMap
      in case mat_set chamferMap (pt_y minLoc) (pt_x minLoc) (Fin FLT_MAX) of
           Inl e \<Rightarrow> Inl e
         | Inr chamferMap' \<Rightarrow>
             let all_detections' =
                   (if fp_less minVal distanceThresh
                    then all_detections @ [new_detection template_info scale minVal minLoc]
                    else all_detections)
             in if fp_less minVal distanceThresh \<and> iteration \<le> maxLoopIterations
                then detect_loop E template_info scale distanceThresh iteration chamferMap'
                       all_detections'
                else Inr (chamferMap', all_detections'))"
  by pat_completeness auto
termination
  by (relation "measure (\<lambda>(E, t, s, th, iteration0, cm, ds). Suc maxLoopIterations - iteration0)")
     auto

declare detect_loop.simps [simp del]
declare for_range.simps [simp del]

text \<open>
  The contract of \<^verbatim>\<open>cv::minMaxLoc\<close> that the loop relies on: on a map that is not empty,
  the location of the minimum lies in the map.
\<close>

definition minMaxLoc_in_range :: "Ext \<Rightarrow> bool" where
  "minMaxLoc_in_range E =
     (\<forall>cm. \<not> mat_empty cm \<longrightarrow>
        mat_in cm (pt_y (snd (ext_minMaxLoc E cm))) (pt_x (snd (ext_minMaxLoc E cm))))"

text \<open>\<^verbatim>\<open>detect_impl\<close>, lines 576 to 619; the steps are \<^verbatim>\<open>5, 5\<close>.\<close>

definition detect_impl ::
  "Ext \<Rightarrow> ChamferMatcher \<Rightarrow> Template_info_t \<Rightarrow> rat \<Rightarrow> Detection_t list \<Rightarrow> bool \<Rightarrow> fp \<Rightarrow> rat \<Rightarrow> rat \<Rightarrow>
   rat \<Rightarrow> bool \<Rightarrow> Detection_t list result" where
  "detect_impl E m template_info scale currentDetections useOrientation distanceThresh lambda
       weight_forward weight_backward useGroupDetections =
     bindR (computeMatchingMap E m template_info [] useOrientation 5 5 lambda
              weight_forward weight_backward) (\<lambda>chamferMap.
       if \<not> mat_empty chamferMap then
         bindR (detect_loop E template_info scale distanceThresh 0 chamferMap [])
           (\<lambda>(chamferMap', all_detections).
              Inr (sortDetections
                     (if useGroupDetections
                      then groupDetections all_detections currentDetections (ext_overlapPercentage E)
                      else all_detections)))
       else Inr currentDetections)"

definition set_index :: "int \<Rightarrow> Detection_t list \<Rightarrow> Detection_t list" where
  "set_index i ds = map (\<lambda>d. d\<lparr>m_templateIndex := i\<rparr>) ds"

text \<open>The loop of \<^verbatim>\<open>detect\<close> over the templates, lines 632 to 662.\<close>

fun detect_templates ::
  "Ext \<Rightarrow> ChamferMatcher \<Rightarrow> bool \<Rightarrow> fp \<Rightarrow> rat \<Rightarrow> rat \<Rightarrow> rat \<Rightarrow> bool \<Rightarrow>
   (int \<times> (rat \<times> Template_info_t) list) list \<Rightarrow> Detection_t list \<Rightarrow> Detection_t list result" where
  "detect_templates E m useOrientation distanceThresh lambda w_fwd w_bwd useGroupDetections [] detections =
     Inr detections"
| "detect_templates E m useOrientation distanceThresh lambda w_fwd w_bwd useGroupDetections
       ((i, scales) # rest) detections =
     (case map_of scales 1 of
        None \<Rightarrow>
          detect_templates E m useOrientation distanceThresh lambda w_fwd w_bwd useGroupDetections rest
            detections
      | Some template_info \<Rightarrow>
          (case detect_impl E m template_info 1 [] useOrientation distanceThresh lambda w_fwd w_bwd
                  useGroupDetections of
             Inl e \<Rightarrow> Inl e
           | Inr all_detections \<Rightarrow>
               detect_templates E m useOrientation distanceThresh lambda w_fwd w_bwd useGroupDetections
                 rest (detections @ set_index i all_detections)))"

text \<open>
  \<^verbatim>\<open>detect\<close>, lines 624 to 667. The output vector is cleared first, so that its former
  content is no argument of the model; the matcher comes back with the new query.
\<close>

definition detect ::
  "Ext \<Rightarrow> ChamferMatcher \<Rightarrow> Image \<Rightarrow> bool \<Rightarrow> fp \<Rightarrow> rat \<Rightarrow> rat \<Rightarrow> rat \<Rightarrow> bool \<Rightarrow>
   (ChamferMatcher \<times> Detection_t list) result" where
  "detect E m img_query useOrientation distanceThresh lambda weight_forward weight_backward
       useGroupDetections =
     (let m' = prepareQuery E m img_query in
      bindR (detect_templates E m' useOrientation distanceThresh lambda weight_forward
               weight_backward useGroupDetections (m_mapOfTemplate_info m') [])
        (\<lambda>detections. Inr (m', sortDetections detections)))"

text \<open>The two loops of \<^verbatim>\<open>detectMultiScale\<close>, lines 684 to 722.\<close>

fun detect_scales ::
  "Ext \<Rightarrow> ChamferMatcher \<Rightarrow> bool \<Rightarrow> fp \<Rightarrow> rat \<Rightarrow> rat \<Rightarrow> rat \<Rightarrow> bool \<Rightarrow> int \<Rightarrow>
   (rat \<times> Template_info_t) list \<Rightarrow> Detection_t list \<Rightarrow> Detection_t list result" where
  "detect_scales E m useOrientation distanceThresh lambda w_fwd w_bwd useGroupDetections i []
       all_detections = Inr all_detections"
| "detect_scales E m useOrientation distanceThresh lambda w_fwd w_bwd useGroupDetections i
       ((scale, template_info) # rest) all_detections =
     (case detect_impl E m template_info scale [] useOrientation distanceThresh lambda w_fwd w_bwd
             useGroupDetections of
        Inl e \<Rightarrow> Inl e
      | Inr current_detections \<Rightarrow>
          detect_scales E m useOrientation distanceThresh lambda w_fwd w_bwd useGroupDetections i rest
            (all_detections @ set_index i current_detections))"

fun detect_all_scales ::
  "Ext \<Rightarrow> ChamferMatcher \<Rightarrow> bool \<Rightarrow> fp \<Rightarrow> rat \<Rightarrow> rat \<Rightarrow> rat \<Rightarrow> bool \<Rightarrow>
   (int \<times> (rat \<times> Template_info_t) list) list \<Rightarrow> Detection_t list \<Rightarrow> Detection_t list result" where
  "detect_all_scales E m useOrientation distanceThresh lambda w_fwd w_bwd useGroupDetections []
       detections = Inr detections"
| "detect_all_scales E m useOrientation distanceThresh lambda w_fwd w_bwd useGroupDetections
       ((i, scales) # rest) detections =
     (case detect_scales E m useOrientation distanceThresh lambda w_fwd w_bwd useGroupDetections i
             scales [] of
        Inl e \<Rightarrow> Inl e
      | Inr all_detections \<Rightarrow>
          detect_all_scales E m useOrientation distanceThresh lambda w_fwd w_bwd useGroupDetections rest
            (detections @ all_detections))"

text \<open>
  \<^verbatim>\<open>detectMultiScale\<close>, lines 672 to 730: the matcher, the detections and the lines
  written to \<^verbatim>\<open>std::cerr\<close>. The flag \<^verbatim>\<open>useNonMaximaSuppression\<close> is not read by the code.
\<close>

definition detectMultiScale ::
  "Ext \<Rightarrow> ChamferMatcher \<Rightarrow> Image \<Rightarrow> bool \<Rightarrow> fp \<Rightarrow> rat \<Rightarrow> rat \<Rightarrow> rat \<Rightarrow> bool \<Rightarrow> bool \<Rightarrow>
   (ChamferMatcher \<times> Detection_t list \<times> string list) result" where
  "detectMultiScale E m img_query useOrientation distanceThresh lambda weight_forward
       weight_backward useNonMaximaSuppression useGroupDetections =
     (if m_matchingStrategyType m = templatePoseMatching then
        Inr (m, [],
             [''Cannot detect on multiple scales with the matching strategy=templatePoseMatching!''])
      else
        let m' = prepareQuery E m img_query in
        bindR (detect_all_scales E m' useOrientation distanceThresh lambda weight_forward
                 weight_backward useGroupDetections (m_mapOfTemplate_info m') [])
          (\<lambda>detections. Inr (m', sortDetections detections, [])))"

subsection \<open>Preparing a template: \<^verbatim>\<open>prepareTemplate\<close>\<close>

text \<open>
  \<^verbatim>\<open>computeCanny\<close>, lines 110 to 117: the edges of Canny, inverted by
  \<^verbatim>\<open>cv::threshold(canny_img, edges, 127, 255, cv::THRESH_BINARY_INV)\<close>.
\<close>

definition threshold_binary_inv :: "8 word Mat \<Rightarrow> 8 word Mat" where
  "threshold_binary_inv m = map (map (\<lambda>v. if 127 < v then 0 else 255)) m"

definition computeCanny :: "Ext \<Rightarrow> Image \<Rightarrow> rat \<Rightarrow> 8 word Mat result" where
  "computeCanny E img threshold =
     bindR (ext_Canny E img threshold (3 * threshold)) (\<lambda>canny_img.
       Inr (threshold_binary_inv canny_img))"

text \<open>\<^verbatim>\<open>filterSingleContourPoint\<close>, lines 735 to 747, and \<^verbatim>\<open>getContours\<close>, lines 752 to 763.\<close>

definition filterSingleContourPoint :: "Point list list \<Rightarrow> nat \<Rightarrow> Point list list" where
  "filterSingleContourPoint contours n = filter (\<lambda>c. n \<le> length c) contours"

definition getContours :: "Ext \<Rightarrow> Image \<Rightarrow> rat \<Rightarrow> Point list list result" where
  "getContours E img threshold =
     bindR (ext_Canny E img threshold (3 * threshold)) (\<lambda>canny_img.
     bindR (ext_findContours E canny_img) (\<lambda>contours.
       Inr (filterSingleContourPoint contours (ext_minContourPoints E))))"

text \<open>
  \<^verbatim>\<open>getContoursOrientation\<close>, lines 770 to 846, in the branch that is compiled. For a
  contour of more than two points the loop starts at the second point \<open>k = 1\<close>: it gives
  the first two points the same angle, the last point the angle of the point before,
  the others the angle of their two neighbours. A shorter contour gets zeros and one
  line on \<^verbatim>\<open>std::cerr\<close> for each point.
\<close>

definition contour_orientations :: "Ext \<Rightarrow> Point list \<Rightarrow> rat list" where
  "contour_orientations E c =
     fold (\<lambda>k orientations.
             if k = 1 then orientations @ [ext_lineAngle E (c ! 0) (c ! 2), ext_lineAngle E (c ! 0) (c ! 2)]
             else if k = length c - 1 then orientations @ [last orientations]
             else orientations @ [ext_lineAngle E (c ! (k - 1)) (c ! (k + 1))])
          [1..<length c] []"

definition getContoursOrientation :: "Ext \<Rightarrow> Point list list \<Rightarrow> rat list list \<times> string list" where
  "getContoursOrientation E contours =
     (map (\<lambda>c. if 2 < length c then contour_orientations E c else replicate (length c) 0) contours,
      concat (map (\<lambda>c. if 2 < length c then [] else replicate (length c) ''Not enough contour points !'')
                  contours))"

text \<open>\<^verbatim>\<open>computeEdgeMapIndex\<close>, lines 270 to 278: the map from a label to the indexes of a point.\<close>

definition computeEdgeMapIndex ::
  "Point list list \<Rightarrow> int Mat \<Rightarrow> (int \<times> nat \<times> nat) list result" where
  "computeEdgeMapIndex contours labels =
     foldR (\<lambda>(i, j, p) mapOfIndex.
              bindR (mat_at labels (pt_y p) (pt_x p)) (\<lambda>label.
                Inr (map_set label (i, j) mapOfIndex)))
           (indexed contours) []"

text \<open>
  \<^verbatim>\<open>createMapOfEdgeOrientations\<close>, lines 534 to 558: the field of orientations, the
  contours, their orientations and the lines on \<^verbatim>\<open>std::cerr\<close>. A label that is not in the
  map gets the indexes \<open>(0, 0)\<close> (\<^verbatim>\<open>operator[]\<close> of \<^verbatim>\<open>std::map\<close>); line 555 then reads
  \<^verbatim>\<open>edges_orientation[idx1][idx2]\<close> without a check, which is undefined on an image
  without contours.
\<close>

definition createMapOfEdgeOrientations ::
  "Ext \<Rightarrow> Image \<Rightarrow> int Mat \<Rightarrow> (rat Mat \<times> Point list list \<times> rat list list \<times> string list) result" where
  "createMapOfEdgeOrientations E img labels =
     bindR (getContours E img (ext_contourThreshold E)) (\<lambda>contours.
     case getContoursOrientation E contours of (edges_orientation, lines) \<Rightarrow>
     bindR (computeEdgeMapIndex contours labels) (\<lambda>mapOfIndex.
     bindR (foldR (\<lambda>i mapOfEdgeOrientations.
                     bindR (foldR (\<lambda>j row.
                                     bindR (mat_at labels (int i) (int j)) (\<lambda>label.
                                     case (case map_of mapOfIndex label of
                                             None \<Rightarrow> (0, 0) | Some idx \<Rightarrow> idx) of
                                       (idx1, idx2) \<Rightarrow>
                                         bindR (vec_at edges_orientation idx1 idx2) (\<lambda>v.
                                           Inr (row @ [v]))))
                                  [0..<nat (img_cols img)] [])
                       (\<lambda>row. Inr (mapOfEdgeOrientations @ [row])))
                  [0..<nat (img_rows img)] [])
       (\<lambda>mapOfEdgeOrientations. Inr (mapOfEdgeOrientations, contours, edges_orientation, lines))))"

text \<open>\<^verbatim>\<open>createTemplateMask\<close>, lines 563 to 571.\<close>

definition createTemplateMask :: "Ext \<Rightarrow> Image \<Rightarrow> 8 word Mat result" where
  "createTemplateMask E img =
     bindR (getContours E img (ext_maskThreshold E)) (\<lambda>contours.
       foldR (\<lambda>i msk. ext_drawContours E msk contours i) [0..<length contours]
             (mat_const (img_rows img) (img_cols img) 0))"

text \<open>
  \<^verbatim>\<open>approximateContours\<close>, lines 84 to 105. The vector of lines is passed by value, so
  that the caller's vector stays as it was; what is left of the call is its failures:
  those of \<^verbatim>\<open>cv::approxPolyDP\<close>, and the bound \<^verbatim>\<open>approx_contour.size()-1\<close> of line 94, which
  wraps around for an empty polygon.
\<close>

definition approximateContours :: "Ext \<Rightarrow> Point list list \<Rightarrow> unit result" where
  "approximateContours E contours =
     foldR (\<lambda>c u. bindR (ext_approxPolyDP E c (ext_epsilon E)) (\<lambda>approx_contour.
                     if approx_contour = [] then Inl UndefinedBehaviour else Inr ()))
           contours ()"

text \<open>
  \<^verbatim>\<open>computeDistanceTransform\<close>, lines 260 to 264, is the call of \<^verbatim>\<open>cv::distanceTransform\<close>.
  \<^verbatim>\<open>prepareTemplate\<close>, lines 1090 to 1167: the template and the lines on \<^verbatim>\<open>std::cerr\<close>. The
  calls that only display an image (\<^verbatim>\<open>cv::imshow\<close>, and \<^verbatim>\<open>convertTo\<close> before it) are taken
  to succeed and left out, with the block under \<^verbatim>\<open>DEBUG\<close>, which runs only when \<^verbatim>\<open>m_debug\<close>
  is set; both constructors clear it.
\<close>

definition prepareTemplate ::
  "Ext \<Rightarrow> ChamferMatcher \<Rightarrow> Image \<Rightarrow> (Template_info_t \<times> string list) result" where
  "prepareTemplate E m img_template =
     bindR (computeCanny E img_template (m_cannyThreshold m)) (\<lambda>edge_template.
     bindR (ext_distanceTransform E edge_template) (\<lambda>(dist_template, labels_template).
     bindR (createMapOfEdgeOrientations E img_template labels_template)
       (\<lambda>(edge_orientations_template, contours_template, edges_orientation, lines).
     bindR (createTemplateMask E img_template) (\<lambda>msk.
     bindR (approximateContours E contours_template) (\<lambda>u.
       Inr (ext_Template_info E contours_template dist_template edges_orientation
              (m_gridDescriptorSize m) edge_orientations_template msk [],
            lines))))))"

subsection \<open>The template store: \<^verbatim>\<open>setTemplateImages\<close>, \<^verbatim>\<open>setScale\<close>\<close>

text \<open>
  The default constructor, lines 26 to 34, with a query that holds nothing yet; \<^verbatim>\<open>0.35f\<close>
  and \<^verbatim>\<open>0.1f\<close> are the nearest values of the type.
\<close>

definition Image_init :: Image where
  "Image_init = \<lparr>img_rows = 0, img_cols = 0, img_channels = 1, img_data = []\<rparr>"

definition Query_info_init :: Query_info_t where
  "Query_info_init =
     \<lparr>q_contours = [], q_distImg = [], q_img = Image_init, q_mapOfEdgeOrientation = [],
      q_edgesOrientation = [], q_mask = [], q_vectorOfContourLines = []\<rparr>"

definition ChamferMatcher_init :: ChamferMatcher where
  "ChamferMatcher_init =
     \<lparr>m_cannyThreshold = 50, m_maxDescriptorDistanceError = 10,
      m_maxDescriptorOrientationError = float_round (35 / 100), m_minNbDescriptorMatches = 5,
      m_gridDescriptorSize = (4, 4), m_matchingStrategyType = templateMatching,
      m_matchingType = edgeMatching, m_query_info = Query_info_init,
      m_mapOfTemplate_info = [], m_mapOfTemplateImages = [],
      m_rejectionType = gridDescriptorRejection, m_scaleMax = 2, m_scaleMin = 1 / 2,
      m_scaleStep = float_round (1 / 10)\<rparr>"

text \<open>
  \<^verbatim>\<open>m_mapOfTemplate_info[i]\<close> (empty when the key is new) and the assignment
  \<^verbatim>\<open>m_mapOfTemplate_info[i][scale] = t\<close>.
\<close>

definition template_scales :: "ChamferMatcher \<Rightarrow> int \<Rightarrow> (rat \<times> Template_info_t) list" where
  "template_scales m i = (case map_of (m_mapOfTemplate_info m) i of None \<Rightarrow> [] | Some x \<Rightarrow> x)"

definition set_template_info :: "ChamferMatcher \<Rightarrow> int \<Rightarrow> rat \<Rightarrow> Template_info_t \<Rightarrow> ChamferMatcher" where
  "set_template_info m i scale t =
     m\<lparr>m_mapOfTemplate_info := map_set i (map_set scale t (template_scales m i)) (m_mapOfTemplate_info m)\<rparr>"

text \<open>
  The loop over the scales (lines 73 to 80, 1010 to 1017, 1286 to 1293, 1336 to 1343).
  First its test \<^verbatim>\<open>fabsf(scale - 1.0f)*100.0f > m_scaleStep\<close> and its body, on the matcher
  and the lines written so far.
\<close>

definition far_from_one :: "ChamferMatcher \<Rightarrow> rat \<Rightarrow> bool" where
  "far_from_one m scale = (m_scaleStep m < float_round (\<bar>float_round (scale - 1)\<bar> * 100))"

definition scale_body ::
  "Ext \<Rightarrow> int \<Rightarrow> Image \<Rightarrow> rat \<Rightarrow> ChamferMatcher \<times> string list \<Rightarrow>
   (ChamferMatcher \<times> string list) result" where
  "scale_body E i img scale ml =
     (case ml of (m, lines) \<Rightarrow>
        if far_from_one m scale then
          bindR (ext_resize E img scale) (\<lambda>img_template_scale.
          bindR (prepareTemplate E m img_template_scale) (\<lambda>(t, lines').
            Inr (set_template_info m i scale t, lines @ lines')))
        else Inr (m, lines))"

text \<open>
  The loop, from the value \<open>scale\<close> of its variable on. The variable is a \<^verbatim>\<open>float\<close>:
  \<^verbatim>\<open>scale += m_scaleStep\<close> rounds. When the sum rounds to a value that is not above
  \<open>scale\<close> (below \<open>scale + float_gap\<close>), the variable never passes \<^verbatim>\<open>m_scaleMax\<close> and the
  loop does not end. The members \<^verbatim>\<open>m_scaleMin\<close>, \<^verbatim>\<open>m_scaleMax\<close> and \<^verbatim>\<open>m_scaleStep\<close> hold values of
  the type.
\<close>

function scale_loop ::
  "Ext \<Rightarrow> int \<Rightarrow> Image \<Rightarrow> rat \<Rightarrow> ChamferMatcher \<times> string list \<Rightarrow>
   (ChamferMatcher \<times> string list) result" where
  "scale_loop E i img scale ml =
     (if scale \<le> m_scaleMax (fst ml) then
        (case scale_body E i img scale ml of
           Inl e \<Rightarrow> Inl e
         | Inr ml' \<Rightarrow>
             if float_round (scale + m_scaleStep (fst ml')) < scale + float_gap
             then Inl NonTermination
             else scale_loop E i img (float_round (scale + m_scaleStep (fst ml'))) ml')
      else Inr ml)"
  by pat_completeness auto
termination
proof (relation "measure (\<lambda>(E, i, img, scale, ml).
          nat (\<lfloor>(m_scaleMax (fst ml) - scale) / float_gap\<rfloor> + 1))", goal_cases)
  case 1
  then show ?case by simp
next
  case (2 E i img scale ml ml')
  let ?next = "float_round (scale + m_scaleStep (fst ml'))"
  have smax: "m_scaleMax (fst ml') = m_scaleMax (fst ml)"
    using 2(2)
    by (cases ml) (auto simp: scale_body_def bindR_def set_template_info_def split: if_splits sum.splits)
  have gap: "0 < float_gap" by (simp add: float_gap_def)
  have le: "scale \<le> m_scaleMax (fst ml)" and adv: "scale + float_gap \<le> ?next"
    using 2 by simp_all
  have "(m_scaleMax (fst ml) - ?next) / float_gap \<le> (m_scaleMax (fst ml) - (scale + float_gap)) / float_gap"
    using adv gap by (simp add: divide_right_mono)
  also have "\<dots> = (m_scaleMax (fst ml) - scale) / float_gap - 1"
    using gap by (simp add: field_simps)
  finally have "\<lfloor>(m_scaleMax (fst ml) - ?next) / float_gap\<rfloor> \<le> \<lfloor>(m_scaleMax (fst ml) - scale) / float_gap\<rfloor> - 1"
    by (metis floor_mono floor_diff_one)
  moreover have "0 \<le> \<lfloor>(m_scaleMax (fst ml) - scale) / float_gap\<rfloor>"
    using le gap by simp
  ultimately show ?case by (simp add: smax)
qed

declare scale_loop.simps [simp del]

text \<open>
  The loop over the template images, lines 51 to 81 and 1313 to 1344. The entry at
  scale 1 is stored and then given its two rectangles; the model stores it once, with
  the rectangles. When the identifier has no rectangles the code dereferences the end
  iterator to print it (line 1324).
\<close>

fun set_templates_loop ::
  "Ext \<Rightarrow> (int \<times> Rect \<times> Rect) list \<Rightarrow> (int \<times> Image) list \<Rightarrow> ChamferMatcher \<times> string list \<Rightarrow>
   (ChamferMatcher \<times> string list) result" where
  "set_templates_loop E mapOfTemplateRois [] ml = Inr ml"
| "set_templates_loop E mapOfTemplateRois ((i, img) # rest) ml =
     (case ml of (m, lines) \<Rightarrow>
        let m1 = m\<lparr>m_mapOfTemplateImages := map_set i img (m_mapOfTemplateImages m)\<rparr>
        in case prepareTemplate E m1 img of
             Inl e \<Rightarrow> Inl e
           | Inr (t, lines') \<Rightarrow>
               (case map_of mapOfTemplateRois i of
                  None \<Rightarrow> Inl UndefinedBehaviour
                | Some (location, roi) \<Rightarrow>
                    (let m2 = set_template_info m1 i 1
                                (t\<lparr>m_templateLocation := location, m_queryROI := roi\<rparr>)
                     in case scale_loop E i img (m_scaleMin m2) (m2, lines @ lines') of
                          Inl e \<Rightarrow> Inl e
                        | Inr ml3 \<Rightarrow> set_templates_loop E mapOfTemplateRois rest ml3)))"

text \<open>The constructor of lines 36 to 82: the matcher and the lines written to \<^verbatim>\<open>std::cerr\<close>.\<close>

definition ChamferMatcher_with ::
  "Ext \<Rightarrow> (int \<times> Image) list \<Rightarrow> (int \<times> Rect \<times> Rect) list \<Rightarrow> (ChamferMatcher \<times> string list) result" where
  "ChamferMatcher_with E mapOfTemplateImages mapOfTemplateRois =
     (if length mapOfTemplateImages \<noteq> length mapOfTemplateRois
      then Inr (ChamferMatcher_init, [''Different size between templates and rois!''])
      else set_templates_loop E mapOfTemplateRois mapOfTemplateImages (ChamferMatcher_init, []))"

text \<open>
  \<^verbatim>\<open>setTemplateImages\<close>, lines 1303 to 1345: the new matcher and the lines written to
  \<^verbatim>\<open>std::cerr\<close>. The two maps are cleared before the sizes are compared.
\<close>

definition setTemplateImages ::
  "Ext \<Rightarrow> ChamferMatcher \<Rightarrow> (int \<times> Image) list \<Rightarrow> (int \<times> Rect \<times> Rect) list \<Rightarrow>
   (ChamferMatcher \<times> string list) result" where
  "setTemplateImages E m mapOfTemplateImages mapOfTemplateRois =
     (let m0 = m\<lparr>m_mapOfTemplate_info := [], m_mapOfTemplateImages := []\<rparr>
      in if length mapOfTemplateImages \<noteq> length mapOfTemplateRois
         then Inr (m0, [''Different size between templates and rois!''])
         else set_templates_loop E mapOfTemplateRois mapOfTemplateImages (m0, []))"

text \<open>\<^verbatim>\<open>setScale\<close>, lines 1271 to 1301.\<close>

fun rescale_loop ::
  "Ext \<Rightarrow> int list \<Rightarrow> ChamferMatcher \<times> string list \<Rightarrow> (ChamferMatcher \<times> string list) result" where
  "rescale_loop E [] ml = Inr ml"
| "rescale_loop E (i # rest) ml =
     (case map_of (m_mapOfTemplateImages (fst ml)) i of
        Some img \<Rightarrow>
          (case scale_loop E i img (m_scaleMin (fst ml)) ml of
             Inl e \<Rightarrow> Inl e
           | Inr ml' \<Rightarrow> rescale_loop E rest ml')
      | None \<Rightarrow> rescale_loop E rest (fst ml, snd ml @ [''Cannot find the template image!'']))"

definition setScale ::
  "Ext \<Rightarrow> ChamferMatcher \<Rightarrow> rat \<Rightarrow> rat \<Rightarrow> rat \<Rightarrow> (ChamferMatcher \<times> string list) result" where
  "setScale E m smin smax step =
     (if smin > 0 \<and> smax > 0 \<and> smax \<ge> smin \<and> step > 0 then
        rescale_loop E (map fst (m_mapOfTemplate_info m))
          (m\<lparr>m_scaleMin := smin, m_scaleMax := smax, m_scaleStep := step\<rparr>, [])
      else Inr (m, [''Invalid scale parameter !'']))"

subsection \<open>The template store: \<^verbatim>\<open>saveTemplateData\<close>, \<^verbatim>\<open>loadTemplateData\<close>\<close>


definition bytes_int32 :: "8 word list \<Rightarrow> int" where
  "bytes_int32 bs =
     (let u = uint (bs ! 0) + 256 * (uint (bs ! 1) + 256 * (uint (bs ! 2) + 256 * uint (bs ! 3)))
      in if u < 2147483648 then u else u - 4294967296)"





text \<open>
  An input stream: the bytes not yet read and the fail bit. A read of \<open>n\<close> bytes gives
  what is left when fewer are left, and sets the fail bit; after that nothing is read.
\<close>

type_synonym istream = "8 word list \<times> bool"

definition stream_read :: "nat \<Rightarrow> istream \<Rightarrow> 8 word list \<times> istream" where
  "stream_read n s =
     (case s of (bs, failed) \<Rightarrow>
        if failed then ([], (bs, True))
        else if n \<le> length bs then (take n bs, (drop n bs, False))
        else (bs, ([], True)))"

text \<open>\<^verbatim>\<open>int v = 0; file.read((char *)(&v), sizeof(v));\<close>: the bytes not read stay zero.\<close>

definition read_int :: "istream \<Rightarrow> int \<times> istream" where
  "read_int s =
     (case stream_read 4 s of (bs, s') \<Rightarrow> (bytes_int32 (bs @ replicate (4 - length bs) 0), s'))"

definition read_rect :: "istream \<Rightarrow> Rect \<times> istream" where
  "read_rect s =
     (case read_int s of (x, s1) \<Rightarrow>
      case read_int s1 of (y, s2) \<Rightarrow>
      case read_int s2 of (w, s3) \<Rightarrow>
      case read_int s3 of (h, s4) \<Rightarrow> (mkRect x y w h, s4))"

text \<open>
  Lines 932 to 1017, one template. The product \<^verbatim>\<open>nbRows*nbCols*nbChannels\<close> is computed in
  \<^verbatim>\<open>int\<close> (an overflow is undefined) and \<^verbatim>\<open>new char[n]\<close> throws for a negative \<open>n\<close>. The
  image has three channels when \<^verbatim>\<open>nbChannels == 3\<close> and one channel otherwise, over the
  buffer read; a buffer filled in part, negative sizes, or an image larger than its
  buffer are reported as undefined behaviour.
\<close>

definition load_template ::
  "Ext \<Rightarrow> istream \<times> ChamferMatcher \<times> string list \<Rightarrow> (istream \<times> ChamferMatcher \<times> string list) result" where
  "load_template E sml =
     (case sml of (s0, m, lines) \<Rightarrow>
      case read_int s0 of (i, s1) \<Rightarrow>
      case read_int s1 of (nbRows, s2) \<Rightarrow>
      case read_int s2 of (nbCols, s3) \<Rightarrow>
      case read_int s3 of (nbChannels, s4) \<Rightarrow>
        let n = nbRows * nbCols * nbChannels in
        if \<not> int32 n then Inl UndefinedBehaviour
        else if n < 0 then Inl Exception
        else
          (case stream_read (nat n) s4 of (data, s5) \<Rightarrow>
             let channels = (if nbChannels = 3 then 3 else 1) in
             if length data < nat n \<or> nbRows < 0 \<or> nbCols < 0 \<or> n < nbRows * nbCols * channels
             then Inl UndefinedBehaviour
             else
               let img = \<lparr>img_rows = nbRows, img_cols = nbCols, img_channels = channels,
                          img_data = take (nat (nbRows * nbCols * channels)) data\<rparr>;
                   m1 = m\<lparr>m_mapOfTemplateImages := map_set i img (m_mapOfTemplateImages m)\<rparr>
               in case read_rect s5 of (templateLocation, s6) \<Rightarrow>
                  case read_rect s6 of (queryROI, s7) \<Rightarrow>
                  case prepareTemplate E m1 img of
                    Inl e \<Rightarrow> Inl e
                  | Inr (t, lines') \<Rightarrow>
                      let template_info =
                            t\<lparr>m_queryROI := queryROI, m_templateLocation := templateLocation\<rparr>;
                          m2 = set_template_info m1 i 1 template_info
                      in case scale_loop E i img (m_scaleMin m2) (m2, lines @ lines') of
                           Inl e \<Rightarrow> Inl e
                         | Inr ml3 \<Rightarrow> Inr (s7, ml3)))"

fun load_templates ::
  "Ext \<Rightarrow> nat \<Rightarrow> istream \<times> ChamferMatcher \<times> string list \<Rightarrow>
   (istream \<times> ChamferMatcher \<times> string list) result" where
  "load_templates E 0 sml = Inr sml"
| "load_templates E (Suc k) sml =
     (case load_template E sml of Inl e \<Rightarrow> Inl e | Inr sml' \<Rightarrow> load_templates E k sml')"

text \<open>
  \<^verbatim>\<open>loadTemplateData\<close>, lines 919 to 1022. \<open>file\<close> is the content of the file, or
  \<open>None\<close> when it cannot be opened.
\<close>

definition loadTemplateData ::
  "Ext \<Rightarrow> ChamferMatcher \<Rightarrow> string \<Rightarrow> 8 word list option \<Rightarrow> (ChamferMatcher \<times> string list) result" where
  "loadTemplateData E m filename file =
     (case file of
        None \<Rightarrow> Inr (m, [''File: '' @ filename @ '' cannot be opened !''])
      | Some bytes \<Rightarrow>
          (case read_int (bytes, False) of (nbTemplates, s1) \<Rightarrow>
           case load_templates E (nat nbTemplates)
                  (s1, m\<lparr>m_mapOfTemplate_info := [], m_mapOfTemplateImages := []\<rparr>, []) of
             Inl e \<Rightarrow> Inl e
           | Inr (s', ml') \<Rightarrow> Inr ml'))"









text \<open>
  Two matchers with the same settings, and what the loop over the scales keeps: the
  images, the settings, the entries of the other templates, and the entry at scale 1 of
  the template \<open>i\<close>.
\<close>

definition same_settings :: "ChamferMatcher \<Rightarrow> ChamferMatcher \<Rightarrow> bool" where
  "same_settings m m' =
     (m_cannyThreshold m' = m_cannyThreshold m \<and> m_gridDescriptorSize m' = m_gridDescriptorSize m \<and>
      m_scaleStep m' = m_scaleStep m \<and> m_scaleMax m' = m_scaleMax m \<and> m_scaleMin m' = m_scaleMin m)"


subsection \<open>Concrete collaborators and inputs\<close>

text \<open>
  A stand-in for the collaborators, to run the model on concrete inputs. For a query,
  the distance field is the first channel of the image, every orientation is zero, the
  only contour is the single point \<open>(0, 0)\<close> and the mask is full. For a template, the
  edges of Canny are the first channel of the image, the distances are the values of
  the edge map and every label is zero, the only contour is three times the point
  \<open>(0, 0)\<close>, drawing a contour fills the mask, resizing and simplifying keep their
  argument, every angle is zero; a template has no grid descriptors and empty
  rectangles.
\<close>

definition toy_field :: "Image \<Rightarrow> rat Mat" where
  "toy_field img =
     map (\<lambda>r. map (\<lambda>c. of_nat (unat (img_data img ! ((r * nat (img_cols img) + c) * nat (img_channels img)))))
                [0..<nat (img_cols img)])
         [0..<nat (img_rows img)]"

definition toy_bytes :: "Image \<Rightarrow> 8 word Mat" where
  "toy_bytes img =
     map (\<lambda>r. map (\<lambda>c. img_data img ! ((r * nat (img_cols img) + c) * nat (img_channels img)))
                [0..<nat (img_cols img)])
         [0..<nat (img_rows img)]"

definition toy_template :: "Image \<Rightarrow> Template_info_t" where
  "toy_template img =
     \<lparr>m_contours = [[\<lparr>pt_x = 0, pt_y = 0\<rparr>]], m_distImg = toy_field img,
      m_edgesOrientation = [[0]], m_gridDescriptors = [], m_gridDescriptorsLocations = [],
      m_mapOfEdgeOrientation = map (map (\<lambda>v. 0)) (toy_field img),
      m_mask = map (map (\<lambda>v. 255)) (toy_field img), m_vectorOfContourLines = [],
      m_templateLocation = mkRect 0 0 0 0, m_queryROI = mkRect 0 0 0 0\<rparr>"

definition toy_query :: "Image \<Rightarrow> Query_info_t" where
  "toy_query img =
     \<lparr>q_contours = [[\<lparr>pt_x = 0, pt_y = 0\<rparr>]], q_distImg = toy_field img, q_img = img,
      q_mapOfEdgeOrientation = map (map (\<lambda>v. 0)) (toy_field img), q_edgesOrientation = [[0]],
      q_mask = map (map (\<lambda>v. 255)) (toy_field img), q_vectorOfContourLines = []\<rparr>"

definition E_ref :: Ext where
  "E_ref =
     \<lparr>ext_prepareQuery = (\<lambda>threshold img. toy_query img),
      ext_resize = (\<lambda>img scale. Inr img),
      ext_getMinAngleError = (\<lambda>a b. \<bar>a - b\<bar>),
      ext_lineIterator = (\<lambda>rows cols pt1 pt2. []),
      ext_minMaxLoc = minMaxLoc_ref,
      ext_overlapPercentage = 1 / 2,
      ext_Canny = (\<lambda>img low high. Inr (toy_bytes img)),
      ext_distanceTransform =
        (\<lambda>edges. Inr (map (map (\<lambda>b. of_nat (unat b))) edges, map (map (\<lambda>b. 0)) edges)),
      ext_findContours =
        (\<lambda>edges. Inr (if mat_empty edges then []
                       else [[\<lparr>pt_x = 0, pt_y = 0\<rparr>, \<lparr>pt_x = 0, pt_y = 0\<rparr>, \<lparr>pt_x = 0, pt_y = 0\<rparr>]])),
      ext_drawContours = (\<lambda>msk contours i. Inr (map (map (\<lambda>b. 255)) msk)),
      ext_approxPolyDP = (\<lambda>contour epsilon. Inr contour),
      ext_lineAngle = (\<lambda>pt1 pt2. 0),
      ext_Template_info =
        (\<lambda>contours distImg edgesOrientation gridSize mapOfEdgeOrientation msk contourLines.
           \<lparr>m_contours = contours, m_distImg = distImg, m_edgesOrientation = edgesOrientation,
            m_gridDescriptors = [], m_gridDescriptorsLocations = [],
            m_mapOfEdgeOrientation = mapOfEdgeOrientation, m_mask = msk,
            m_vectorOfContourLines = contourLines,
            m_templateLocation = mkRect 0 0 0 0, m_queryROI = mkRect 0 0 0 0\<rparr>),
      ext_contourThreshold = 50, ext_maskThreshold = 50, ext_minContourPoints = 2,
      ext_epsilon = 3\<rparr>"

text \<open>The same collaborators on featureless images: \<^verbatim>\<open>cv::findContours\<close> finds nothing.\<close>

definition E_blank :: Ext where
  "E_blank = E_ref\<lparr>ext_findContours := (\<lambda>edges. Inr [])\<rparr>"

definition gray_image :: "int \<Rightarrow> int \<Rightarrow> 8 word list \<Rightarrow> Image" where
  "gray_image rows cols bytes =
     \<lparr>img_rows = rows, img_cols = cols, img_channels = 1, img_data = bytes\<rparr>"

text \<open>Small inputs: images of one channel, a matcher with one template, two queries.\<close>

definition matcher_one_template :: ChamferMatcher where
  "matcher_one_template =
     ChamferMatcher_init
       \<lparr>m_mapOfTemplate_info := [(7, [(1, toy_template (gray_image 1 1 [0]))])],
        m_mapOfTemplateImages := [(7, gray_image 1 1 [0])],
        m_rejectionType := noRejection\<rparr>"

definition query_1x1 :: Image where
  "query_1x1 = gray_image 1 1 [2]"

text \<open>
  A query of one row and three columns with the contour point \<open>(1, 0)\<close>, and a template
  of one row and two columns with the contour point \<open>(0, 0)\<close>; at the offset \<open>(1, 0)\<close>
  the query's contour point lies in the footprint of the template.
\<close>

definition fb_query :: Query_info_t where
  "fb_query =
     \<lparr>q_contours = [[\<lparr>pt_x = 1, pt_y = 0\<rparr>]], q_distImg = [[0, 4, 0]], q_img = Image_init,
      q_mapOfEdgeOrientation = [[0, 0, 0]], q_edgesOrientation = [[0]],
      q_mask = [[255, 255, 255]], q_vectorOfContourLines = []\<rparr>"

definition fb_template :: Template_info_t where
  "fb_template =
     \<lparr>m_contours = [[\<lparr>pt_x = 0, pt_y = 0\<rparr>]], m_distImg = [[10, 20]],
      m_edgesOrientation = [[0]], m_gridDescriptors = [], m_gridDescriptorsLocations = [],
      m_mapOfEdgeOrientation = [[0, 0]], m_mask = [[255, 255]], m_vectorOfContourLines = [],
      m_templateLocation = mkRect 0 0 0 0, m_queryROI = mkRect 0 0 0 0\<rparr>"

definition fb_matcher :: ChamferMatcher where
  "fb_matcher =
     ChamferMatcher_init\<lparr>m_matchingType := edgeForwardBackwardMatching, m_query_info := fb_query\<rparr>"

text \<open>The same template without contour points and with an empty mask.\<close>

definition bare_template :: Template_info_t where
  "bare_template =
     fb_template\<lparr>m_contours := [], m_edgesOrientation := [], m_mask := [[0, 0]]\<rparr>"

text \<open>
  No pixel contributes to the sum of \<^verbatim>\<open>computeChamferDistance\<close>: no template contour
  point and, when the backward pass runs, no query contour point in the footprint (edge
  matching); no pixel on any line (line matching).
\<close>

definition in_footprint :: "Template_info_t \<Rightarrow> int \<Rightarrow> int \<Rightarrow> Point \<Rightarrow> bool" where
  "in_footprint t offsetX offsetY p =
     (offsetX \<le> pt_x p \<and> pt_x p < offsetX + mat_cols (m_distImg t) \<and>
      offsetY \<le> pt_y p \<and> pt_y p < offsetY + mat_rows (m_distImg t))"

definition no_pixel_edge :: "Ext \<Rightarrow> ChamferMatcher \<Rightarrow> Template_info_t \<Rightarrow> int \<Rightarrow> int \<Rightarrow> bool" where
  "no_pixel_edge E m t offsetX offsetY =
     (if m_matchingType m = lineMatching then
        line_pixels E (q_distImg (m_query_info m)) (m_vectorOfContourLines t) = []
      else if m_matchingType m = lineForwardBackwardMatching then
        line_pixels E (q_distImg (m_query_info m)) (m_vectorOfContourLines t) = [] \<and>
        line_pixels E (m_distImg t) (q_vectorOfContourLines (m_query_info m)) = []
      else if m_matchingType m = edgeForwardBackwardMatching then
        concat (m_contours t) = [] \<and>
        filter (in_footprint t offsetX offsetY) (concat (q_contours (m_query_info m))) = []
      else concat (m_contours t) = [])"

text \<open>
  No pixel contributes to the sum of \<^verbatim>\<open>computeFullChamferDistance\<close>: the window is
  empty (full matching), or the common mask is zero everywhere (masked matching).
\<close>

definition no_pixel_full :: "ChamferMatcher \<Rightarrow> Template_info_t \<Rightarrow> int \<Rightarrow> int \<Rightarrow> bool" where
  "no_pixel_full m t offsetX offsetY =
     (if m_matchingType m = fullMatching then
        mat_rows (m_distImg t) = 0 \<or> mat_cols (m_distImg t) = 0
      else if m_matchingType m = forwardBackwardMaskMatching then
        countNonZero (m_mask t) = 0 \<and>
        (case mat_roi (q_mask (m_query_info m)) offsetX offsetY
                (mat_cols (m_distImg t)) (mat_rows (m_distImg t)) of
           Inl e \<Rightarrow> True
         | Inr query_mask \<Rightarrow> countNonZero query_mask = 0)
      else countNonZero (m_mask t) = 0)"

text \<open>
  Stores configured through \<^verbatim>\<open>setTemplateImages\<close>, in a matcher with the scales \<^verbatim>\<open>1.0f\<close> to
  \<^verbatim>\<open>1.2f\<close> by \<^verbatim>\<open>0.1f\<close>: one template of identifier 7, with a grey image of two rows and two
  columns, or with an image of one pixel and four channels.
\<close>

definition gray_2x2 :: Image where
  "gray_2x2 = gray_image 2 2 [10, 20, 30, 40]"


definition rois_7 :: "(int \<times> Rect \<times> Rect) list" where
  "rois_7 = [(7, (mkRect 3 4 2 2, mkRect 0 0 0 0))]"

definition narrow_matcher :: ChamferMatcher where
  "narrow_matcher = ChamferMatcher_init\<lparr>m_scaleMin := 1, m_scaleMax := float_round (6 / 5)\<rparr>"

text \<open>The matcher after \<^verbatim>\<open>setScale(0.5f, 2.0f, 1e-9f)\<close> on an empty store.\<close>

definition tiny_step_matcher :: ChamferMatcher where
  "tiny_step_matcher = ChamferMatcher_init\<lparr>m_scaleStep := float_round (1 / 1000000000)\<rparr>"

definition configured :: "Image \<Rightarrow> ChamferMatcher" where
  "configured img =
     (case setTemplateImages E_ref narrow_matcher [(7, img)] rois_7 of
        Inr (m, lines) \<Rightarrow> m
      | Inl e \<Rightarrow> narrow_matcher)"


text \<open>
  A row of costs as \<^verbatim>\<open>computeMatchingMap\<close> leaves it with its steps of 5: cost 0 at
  every fifth column, the initial value elsewhere; \<open>cost_row k\<close> has \<open>5 * k + 1\<close> cells.
\<close>

fun cost_row :: "nat \<Rightarrow> fp list" where
  "cost_row 0 = [Fin 0]"
| "cost_row (Suc k) = Fin 0 # Fin FLT_MAX # Fin FLT_MAX # Fin FLT_MAX # Fin FLT_MAX # cost_row k"

text \<open>
  The outcomes of two runs of \<^verbatim>\<open>detect\<close>: the same failure, or the same matcher and at
  least as many detections in the second.
\<close>

definition same_or_more ::
  "(ChamferMatcher \<times> Detection_t list) result \<Rightarrow> (ChamferMatcher \<times> Detection_t list) result \<Rightarrow> bool" where
  "same_or_more r1 r2 =
     (case (r1, r2) of
        (Inl e1, Inl e2) \<Rightarrow> e1 = e2
      | (Inr (m1, d1), Inr (m2, d2)) \<Rightarrow> m1 = m2 \<and> length d1 \<le> length d2
      | _ \<Rightarrow> False)"

definition fewer :: "Detection_t list result \<Rightarrow> Detection_t list result \<Rightarrow> bool" where
  "fewer r1 r2 =
     (case (r1, r2) of
        (Inl e1, Inl e2) \<Rightarrow> e1 = e2
      | (Inr d1, Inr d2) \<Rightarrow> length d1 \<le> length d2
      | _ \<Rightarrow> False)"

section \<open>Properties\<close>

subsection \<open>Non-maximum suppression\<close>

lemma inside_later_iff:
  "inside_later r ds = (\<exists>d \<in> set ds. is_inside r (m_boundingBox d))"
  by (induction ds) auto

lemma set_nms_scan: "set (nms_scan ds) \<subseteq> set ds"
  by (induction ds) auto

lemma is_inside_area_less:
  assumes "is_inside r1 r2" and "0 \<le> rect_width r1" and "0 \<le> rect_height r1"
  shows "area r1 < area r2"
proof -
  from assms have w: "rect_width r1 < rect_width r2" and h: "rect_height r1 < rect_height r2"
    by (auto simp: is_inside_def)
  have "rect_width r1 * rect_height r1 \<le> rect_width r1 * rect_height r2"
    using assms(2) h by (simp add: mult_left_mono)
  also have "\<dots> < rect_width r2 * rect_height r2"
    using w h assms(3) by (simp add: mult_strict_right_mono)
  finally show ?thesis by (simp add: area_def)
qed

lemma nms_scan_no_nesting:
  assumes "sorted (map (\<lambda>d. area (m_boundingBox d)) ds)" and "\<forall>d \<in> set ds. box_ok d"
  shows "\<forall>d1 \<in> set (nms_scan ds). \<forall>d2 \<in> set (nms_scan ds).
           \<not> is_inside (m_boundingBox d1) (m_boundingBox d2)"
  using assms
proof (induction ds)
  case Nil
  then show ?case by simp
next
  case (Cons d ds)
  have IH: "\<forall>d1 \<in> set (nms_scan ds). \<forall>d2 \<in> set (nms_scan ds).
              \<not> is_inside (m_boundingBox d1) (m_boundingBox d2)"
    using Cons by simp
  show ?case
  proof (cases "inside_later (m_boundingBox d) ds")
    case True
    then show ?thesis using IH by simp
  next
    case False
    have self: "\<not> is_inside (m_boundingBox d) (m_boundingBox d)"
      by (simp add: is_inside_def)
    have out: "\<not> is_inside (m_boundingBox d) (m_boundingBox d2)" if "d2 \<in> set (nms_scan ds)" for d2
      using False that set_nms_scan [of ds] by (auto simp: inside_later_iff)
    have "in": "\<not> is_inside (m_boundingBox d2) (m_boundingBox d)" if "d2 \<in> set (nms_scan ds)" for d2
    proof
      assume c: "is_inside (m_boundingBox d2) (m_boundingBox d)"
      have mem: "d2 \<in> set ds" using that set_nms_scan [of ds] by auto
      then have "box_ok d2" using Cons.prems(2) by simp
      then have "area (m_boundingBox d2) < area (m_boundingBox d)"
        using c by (intro is_inside_area_less) (auto simp: box_ok_def Let_def)
      moreover have "area (m_boundingBox d) \<le> area (m_boundingBox d2)"
        using Cons.prems(1) mem by auto
      ultimately show False by simp
    qed
    show ?thesis using False IH self out "in" by auto
  qed
qed

text \<open>
  Claim C7, as stated, fails: a box of negative width and height passes the test of the
  four edges against a box of smaller area, which \<^verbatim>\<open>std::sort\<close> has put before it; both
  survive.
\<close>

theorem nesting_counterexample:
  "nonMaximaSuppression
     [mkDetection (mkRect 5 5 (- 1) (- 9)) (Fin 1) 1, mkDetection (mkRect 4 4 1 2) (Fin 2) 1] [] =
     [mkDetection (mkRect 4 4 1 2) (Fin 2) 1, mkDetection (mkRect 5 5 (- 1) (- 9)) (Fin 1) 1] \<and>
   is_inside (mkRect 5 5 (- 1) (- 9)) (mkRect 4 4 1 2)"
  by (simp add: nonMaximaSuppression_def mkDetection_def mkRect_def area_def is_inside_def)

text \<open>
  Claim C7, amended. For every list of detections whose boxes have a width and a height
  that are not negative (and corners and an area within \<^verbatim>\<open>int\<close>), after non-maximum
  suppression no surviving detection's box lies strictly inside (on all four edges) the
  box of another surviving detection.
\<close>

theorem nonMaximaSuppression_no_nesting:
  assumes "\<forall>d \<in> set detections. box_ok d"
  shows "\<forall>d1 \<in> set (nonMaximaSuppression detections []).
         \<forall>d2 \<in> set (nonMaximaSuppression detections []).
           \<not> is_inside (m_boundingBox d1) (m_boundingBox d2)"
proof -
  let ?ds = "sort_key (\<lambda>d. area (m_boundingBox d)) detections"
  have "sorted (map (\<lambda>d. area (m_boundingBox d)) ?ds)" by simp
  moreover have "\<forall>d \<in> set ?ds. box_ok d" using assms by simp
  ultimately show ?thesis
    unfolding nonMaximaSuppression_def using nms_scan_no_nesting [of ?ds] by simp
qed

theorem nonMaximaSuppression_no_nesting_witness:
  "box_ok (mkDetection (mkRect 2 2 3 3) (Fin 1) 1) \<and>
   box_ok (mkDetection (mkRect 0 0 10 10) (Fin 2) 1) \<and>
   box_ok (mkDetection (mkRect 20 20 3 3) (Fin 3) 1) \<and>
   nonMaximaSuppression
     [mkDetection (mkRect 2 2 3 3) (Fin 1) 1, mkDetection (mkRect 0 0 10 10) (Fin 2) 1,
      mkDetection (mkRect 20 20 3 3) (Fin 3) 1] [] =
     [mkDetection (mkRect 20 20 3 3) (Fin 3) 1, mkDetection (mkRect 0 0 10 10) (Fin 2) 1] \<and>
   \<not> is_inside (mkRect 20 20 3 3) (mkRect 0 0 10 10) \<and>
   \<not> is_inside (mkRect 0 0 10 10) (mkRect 20 20 3 3)"
proof -
  let ?L = "[mkDetection (mkRect 2 2 3 3) (Fin 1) 1, mkDetection (mkRect 0 0 10 10) (Fin 2) 1,
             mkDetection (mkRect 20 20 3 3) (Fin 3) 1]"
  have ok: "\<forall>d \<in> set ?L. box_ok d"
    by (simp add: box_ok_def mkDetection_def mkRect_def area_def int32_def)
  have run: "nonMaximaSuppression ?L [] =
     [mkDetection (mkRect 20 20 3 3) (Fin 3) 1, mkDetection (mkRect 0 0 10 10) (Fin 2) 1]"
    by (simp add: nonMaximaSuppression_def mkDetection_def mkRect_def area_def is_inside_def)
  have "\<forall>d1 \<in> set (nonMaximaSuppression ?L []). \<forall>d2 \<in> set (nonMaximaSuppression ?L []).
          \<not> is_inside (m_boundingBox d1) (m_boundingBox d2)"
    by (rule nonMaximaSuppression_no_nesting [OF ok])
  then have "\<not> is_inside (mkRect 20 20 3 3) (mkRect 0 0 10 10) \<and>
             \<not> is_inside (mkRect 0 0 10 10) (mkRect 20 20 3 3)"
    unfolding run by (simp add: mkDetection_def)
  then show ?thesis using ok run by simp
qed

subsection \<open>The detection loop, \<^verbatim>\<open>detect\<close> and \<^verbatim>\<open>detectMultiScale\<close>\<close>

lemma fp_less_mono: "fp_less v t1 \<Longrightarrow> fp_le t1 t2 \<Longrightarrow> fp_less v t2"
  by (cases v; cases t1; cases t2) auto

lemma mat_set_keeps_nonempty:
  assumes "mat_set cm y x v = Inr cm'" and "\<not> mat_empty cm"
  shows "\<not> mat_empty cm'"
proof -
  from assms(1) have in_range: "mat_in cm y x" and cm': "cm' = cm[nat y := (cm ! nat y)[nat x := v]]"
    by (auto simp: mat_set_def split: if_splits)
  from assms(2) obtain r rs where cm: "cm = r # rs" and r: "r \<noteq> []"
    by (cases cm) (auto simp: mat_empty_def mat_rows_def mat_cols_def)
  show ?thesis
    using cm r cm' by (cases "nat y") (auto simp: mat_empty_def mat_rows_def mat_cols_def)
qed

lemma detect_loop_step:
  assumes "ext_minMaxLoc E cm = (v, loc)"
    and "mat_set cm (pt_y loc) (pt_x loc) (Fin FLT_MAX) = Inr cm1"
  shows "detect_loop E t s th it cm ds =
     (if fp_less v th
      then (if it + 1 \<le> maxLoopIterations
            then detect_loop E t s th (it + 1) cm1 (ds @ [new_detection t s v loc])
            else Inr (cm1, ds @ [new_detection t s v loc]))
      else Inr (cm1, ds))"
  by (subst detect_loop.simps) (simp add: assms Let_def)

lemma detect_loop_fails:
  assumes "ext_minMaxLoc E cm = (v, loc)"
    and "mat_set cm (pt_y loc) (pt_x loc) (Fin FLT_MAX) = Inl e"
  shows "detect_loop E t s th it cm ds = Inl e"
  by (subst detect_loop.simps) (simp add: assms Let_def)

text \<open>The loop stops at the first minimum that is not below the threshold.\<close>

lemma detect_loop_stops:
  assumes "ext_minMaxLoc E cm = (v, loc)"
    and "mat_set cm (pt_y loc) (pt_x loc) (Fin FLT_MAX) = Inr cm1"
    and "\<not> fp_less v th"
  shows "detect_loop E t s th it cm ds = Inr (cm1, ds)"
  using assms(3) by (simp add: detect_loop_step [OF assms(1,2)])

lemma detect_loop_returns:
  assumes "minMaxLoc_in_range E"
  shows "\<not> mat_empty cm \<Longrightarrow> \<exists>cm' ds'. detect_loop E t s th it cm ds = Inr (cm', ds')"
proof (induction "Suc maxLoopIterations - it" arbitrary: it cm ds)
  case 0
  obtain v loc where mm: "ext_minMaxLoc E cm = (v, loc)" by (cases "ext_minMaxLoc E cm")
  have "mat_in cm (pt_y loc) (pt_x loc)"
    using assms "0.prems" mm by (auto simp: minMaxLoc_in_range_def)
  then obtain cm1 where st: "mat_set cm (pt_y loc) (pt_x loc) (Fin FLT_MAX) = Inr cm1"
    by (auto simp: mat_set_def)
  have "\<not> it + 1 \<le> maxLoopIterations" using "0.hyps" by simp
  then show ?case by (simp add: detect_loop_step [OF mm st])
next
  case (Suc n)
  obtain v loc where mm: "ext_minMaxLoc E cm = (v, loc)" by (cases "ext_minMaxLoc E cm")
  have "mat_in cm (pt_y loc) (pt_x loc)"
    using assms Suc.prems mm by (auto simp: minMaxLoc_in_range_def)
  then obtain cm1 where st: "mat_set cm (pt_y loc) (pt_x loc) (Fin FLT_MAX) = Inr cm1"
    by (auto simp: mat_set_def)
  have ne: "\<not> mat_empty cm1" using st Suc.prems by (rule mat_set_keeps_nonempty)
  have n: "n = Suc maxLoopIterations - (it + 1)" using Suc.hyps(2) by simp
  show ?case
    using Suc.hyps(1) [OF n ne] by (simp add: detect_loop_step [OF mm st])
qed

lemma detect_loop_length_ge:
  "detect_loop E t s th it cm ds = Inr (cm', ds') \<Longrightarrow> length ds \<le> length ds'"
proof (induction "Suc maxLoopIterations - it" arbitrary: it cm ds)
  case 0
  obtain v loc where mm: "ext_minMaxLoc E cm = (v, loc)" by (cases "ext_minMaxLoc E cm")
  obtain cm1 where st: "mat_set cm (pt_y loc) (pt_x loc) (Fin FLT_MAX) = Inr cm1"
    using "0.prems" detect_loop_fails [OF mm]
    by (cases "mat_set cm (pt_y loc) (pt_x loc) (Fin FLT_MAX)") auto
  have "\<not> it + 1 \<le> maxLoopIterations" using "0.hyps" by simp
  then show ?case using "0.prems" by (auto simp: detect_loop_step [OF mm st] split: if_splits)
next
  case (Suc n)
  obtain v loc where mm: "ext_minMaxLoc E cm = (v, loc)" by (cases "ext_minMaxLoc E cm")
  obtain cm1 where st: "mat_set cm (pt_y loc) (pt_x loc) (Fin FLT_MAX) = Inr cm1"
    using Suc.prems detect_loop_fails [OF mm]
    by (cases "mat_set cm (pt_y loc) (pt_x loc) (Fin FLT_MAX)") auto
  have n: "n = Suc maxLoopIterations - (it + 1)" using Suc.hyps(2) by simp
  show ?case
    using Suc.prems Suc.hyps(1) [OF n, of cm1 "ds @ [new_detection t s v loc]"]
    by (auto simp: detect_loop_step [OF mm st] split: if_splits)
qed

lemma detect_loop_mono:
  assumes "fp_le t1 t2"
  shows "detect_loop E t s t1 it cm d1 = Inr (c1, r1) \<Longrightarrow>
         detect_loop E t s t2 it cm d2 = Inr (c2, r2) \<Longrightarrow>
         length r1 + length d2 \<le> length r2 + length d1"
proof (induction "Suc maxLoopIterations - it" arbitrary: it cm d1 d2)
  case 0
  obtain v loc where mm: "ext_minMaxLoc E cm = (v, loc)" by (cases "ext_minMaxLoc E cm")
  obtain cm1 where st: "mat_set cm (pt_y loc) (pt_x loc) (Fin FLT_MAX) = Inr cm1"
    using "0.prems"(1) detect_loop_fails [OF mm]
    by (cases "mat_set cm (pt_y loc) (pt_x loc) (Fin FLT_MAX)") auto
  have stop: "\<not> it + 1 \<le> maxLoopIterations" using "0.hyps" by simp
  have imp: "fp_less v t1 \<Longrightarrow> fp_less v t2" using assms by (rule fp_less_mono [rotated])
  show ?case
    using "0.prems" stop imp by (auto simp: detect_loop_step [OF mm st] split: if_splits)
next
  case (Suc n)
  obtain v loc where mm: "ext_minMaxLoc E cm = (v, loc)" by (cases "ext_minMaxLoc E cm")
  obtain cm1 where st: "mat_set cm (pt_y loc) (pt_x loc) (Fin FLT_MAX) = Inr cm1"
    using Suc.prems(1) detect_loop_fails [OF mm]
    by (cases "mat_set cm (pt_y loc) (pt_x loc) (Fin FLT_MAX)") auto
  have n: "n = Suc maxLoopIterations - (it + 1)" using Suc.hyps(2) by simp
  have imp: "fp_less v t1 \<Longrightarrow> fp_less v t2" using assms by (rule fp_less_mono [rotated])
  let ?d = "new_detection t s v loc"
  show ?case
  proof (cases "fp_less v t1")
    case True
    then have lt2: "fp_less v t2" by (rule imp)
    show ?thesis
    proof (cases "it + 1 \<le> maxLoopIterations")
      case le: True
      have rec1: "detect_loop E t s t1 (it + 1) cm1 (d1 @ [?d]) = Inr (c1, r1)"
        using Suc.prems(1) True le by (simp add: detect_loop_step [OF mm st])
      have rec2: "detect_loop E t s t2 (it + 1) cm1 (d2 @ [?d]) = Inr (c2, r2)"
        using Suc.prems(2) lt2 le by (simp add: detect_loop_step [OF mm st])
      have "length r1 + length (d2 @ [?d]) \<le> length r2 + length (d1 @ [?d])"
        using Suc.hyps(1) [OF n rec1 rec2] .
      then show ?thesis by simp
    next
      case gt: False
      show ?thesis
        using Suc.prems True lt2 gt by (auto simp: detect_loop_step [OF mm st])
    qed
  next
    case False
    have "r1 = d1"
      using Suc.prems(1) False by (simp add: detect_loop_step [OF mm st])
    moreover have "length d2 \<le> length r2"
      using Suc.prems(2) by (rule detect_loop_length_ge)
    ultimately show ?thesis by simp
  qed
qed

lemma length_insert_detection: "length (insert_detection d ds) = Suc (length ds)"
  by (induction ds) auto

lemma length_sortDetections: "length (sortDetections ds) = length ds"
  by (induction ds) (auto simp: sortDetections_def length_insert_detection)

lemma detect_loop_count_le:
  "it \<le> maxLoopIterations \<Longrightarrow> detect_loop E t s th it cm ds = Inr (cm', ds') \<Longrightarrow>
   length ds' \<le> length ds + (Suc maxLoopIterations - it)"
proof (induction "maxLoopIterations - it" arbitrary: it cm ds)
  case 0
  obtain v loc where mm: "ext_minMaxLoc E cm = (v, loc)" by (cases "ext_minMaxLoc E cm")
  obtain cm1 where st: "mat_set cm (pt_y loc) (pt_x loc) (Fin FLT_MAX) = Inr cm1"
    using "0.prems" detect_loop_fails [OF mm]
    by (cases "mat_set cm (pt_y loc) (pt_x loc) (Fin FLT_MAX)") auto
  have "\<not> it + 1 \<le> maxLoopIterations" using "0.hyps" "0.prems"(1) by simp
  then show ?case
    using "0.prems" by (auto simp: detect_loop_step [OF mm st] split: if_splits)
next
  case (Suc n)
  obtain v loc where mm: "ext_minMaxLoc E cm = (v, loc)" by (cases "ext_minMaxLoc E cm")
  obtain cm1 where st: "mat_set cm (pt_y loc) (pt_x loc) (Fin FLT_MAX) = Inr cm1"
    using Suc.prems detect_loop_fails [OF mm]
    by (cases "mat_set cm (pt_y loc) (pt_x loc) (Fin FLT_MAX)") auto
  have n: "n = maxLoopIterations - (it + 1)" and le: "it + 1 \<le> maxLoopIterations"
    using Suc.hyps(2) by simp_all
  show ?case
    using Suc.prems Suc.hyps(1) [OF n le, of cm1 "ds @ [new_detection t s v loc]"] le
    by (auto simp: detect_loop_step [OF mm st] split: if_splits)
qed

lemma detect_impl_mono:
  assumes "minMaxLoc_in_range E" and "fp_le t1 t2"
  shows "fewer (detect_impl E m t s [] uo t1 l w_fwd w_bwd False)
               (detect_impl E m t s [] uo t2 l w_fwd w_bwd False)"
proof (cases "computeMatchingMap E m t [] uo 5 5 l w_fwd w_bwd")
  case (Inl e)
  then show ?thesis by (simp add: detect_impl_def bindR_def fewer_def)
next
  case (Inr cm)
  show ?thesis
  proof (cases "mat_empty cm")
    case True
    then show ?thesis using Inr by (simp add: detect_impl_def bindR_def fewer_def)
  next
    case False
    obtain c1 r1 where l1: "detect_loop E t s t1 0 cm [] = Inr (c1, r1)"
      using detect_loop_returns [OF assms(1) False] by blast
    obtain c2 r2 where l2: "detect_loop E t s t2 0 cm [] = Inr (c2, r2)"
      using detect_loop_returns [OF assms(1) False] by blast
    have "length r1 \<le> length r2"
      using detect_loop_mono [OF assms(2) l1 l2] by simp
    then show ?thesis
      using Inr False l1 l2
      by (simp add: detect_impl_def bindR_def fewer_def length_sortDetections)
  qed
qed

lemma detect_templates_mono:
  assumes "minMaxLoc_in_range E" and "fp_le t1 t2"
  shows "length a1 \<le> length a2 \<Longrightarrow>
         fewer (detect_templates E m uo t1 l w_fwd w_bwd False tpls a1)
               (detect_templates E m uo t2 l w_fwd w_bwd False tpls a2)"
proof (induction tpls arbitrary: a1 a2)
  case Nil
  then show ?case by (simp add: fewer_def)
next
  case (Cons p tpls)
  obtain i scales where p: "p = (i, scales)" by (cases p)
  show ?case
  proof (cases "map_of scales 1")
    case None
    then show ?thesis using Cons p by simp
  next
    case (Some t)
    have f: "fewer (detect_impl E m t 1 [] uo t1 l w_fwd w_bwd False)
                   (detect_impl E m t 1 [] uo t2 l w_fwd w_bwd False)"
      using assms by (rule detect_impl_mono)
    show ?thesis
    proof (cases "detect_impl E m t 1 [] uo t1 l w_fwd w_bwd False")
      case (Inl e)
      then show ?thesis using f Some p
        by (cases "detect_impl E m t 1 [] uo t2 l w_fwd w_bwd False") (auto simp: fewer_def)
    next
      case (Inr d1)
      then obtain d2 where d2: "detect_impl E m t 1 [] uo t2 l w_fwd w_bwd False = Inr d2"
        and le: "length d1 \<le> length d2"
        using f by (cases "detect_impl E m t 1 [] uo t2 l w_fwd w_bwd False") (auto simp: fewer_def)
      have "length (a1 @ set_index i d1) \<le> length (a2 @ set_index i d2)"
        using le Cons.prems by (simp add: set_index_def)
      then show ?thesis
        using Cons.IH Some p Inr d2 by simp
    qed
  qed
qed

text \<open>
  Claim C5. For every query image and configuration, with clustering disabled, raising
  the distance threshold given to \<^verbatim>\<open>detect\<close> never decreases the number of detections
  returned: the two runs fail alike or return the same matcher, the second with at least
  as many detections. \<^verbatim>\<open>cv::minMaxLoc\<close> is any function that returns a location in the
  map.
\<close>

theorem detect_threshold_monotone:
  assumes "minMaxLoc_in_range E" and "fp_le thresh1 thresh2"
  shows "same_or_more
           (detect E m img_query useOrientation thresh1 lambda w_fwd w_bwd False)
           (detect E m img_query useOrientation thresh2 lambda w_fwd w_bwd False)"
proof -
  let ?m = "prepareQuery E m img_query"
  have "fewer (detect_templates E ?m useOrientation thresh1 lambda w_fwd w_bwd False
                 (m_mapOfTemplate_info ?m) [])
              (detect_templates E ?m useOrientation thresh2 lambda w_fwd w_bwd False
                 (m_mapOfTemplate_info ?m) [])"
    using assms by (intro detect_templates_mono) simp_all
  then show ?thesis
    by (auto simp: detect_def same_or_more_def fewer_def bindR_def Let_def length_sortDetections
             split: sum.splits)
qed

text \<open>
  Claim C10. For a template wider or higher than the query, the dimensions of the cost
  map are not positive: \<^verbatim>\<open>computeMatchingMap\<close> leaves the map empty, and \<^verbatim>\<open>detect_impl\<close>
  returns without an error and without touching the vector of detections.
\<close>

theorem template_larger_than_query:
  assumes "mat_cols (q_distImg (m_query_info m)) < mat_cols (m_distImg template_info) \<or>
           mat_rows (q_distImg (m_query_info m)) < mat_rows (m_distImg template_info)"
  shows "computeMatchingMap E m template_info [] useOrientation xStep yStep lambda w_fwd w_bwd = Inr [] \<and>
         detect_impl E m template_info scale currentDetections useOrientation distanceThresh lambda
           w_fwd w_bwd useGroupDetections = Inr currentDetections"
proof -
  have a: "computeMatchingMap E m template_info [] useOrientation xs ys lambda w_fwd w_bwd = Inr []" for xs ys
    using assms by (auto simp: computeMatchingMap_def Let_def)
  show ?thesis
    by (simp add: a detect_impl_def bindR_def mat_empty_def mat_rows_def)
qed

text \<open>
  Claim C9. Under the strategy \<^verbatim>\<open>templatePoseMatching\<close>, \<^verbatim>\<open>detectMultiScale\<close> writes its
  message to \<^verbatim>\<open>std::cerr\<close> and returns no detection; the matcher, and with it the query
  representation, is unchanged, and no collaborator is consulted.
\<close>

theorem detectMultiScale_pose_fails_fast:
  assumes "m_matchingStrategyType m = templatePoseMatching"
  shows "detectMultiScale E m img_query useOrientation distanceThresh lambda w_fwd w_bwd
           useNonMaximaSuppression useGroupDetections =
         Inr (m, [], [''Cannot detect on multiple scales with the matching strategy=templatePoseMatching!''])"
  using assms by (simp add: detectMultiScale_def)


lemma min_scan_keeps:
  "\<forall>c \<in> set cs. \<not> fp_less (snd (snd c)) (snd (snd b)) \<Longrightarrow> min_scan cs b = b"
  by (induction cs) auto

lemma min_scan_mem: "min_scan cs b \<in> set (b # cs)"
  by (induction cs arbitrary: b) (auto split: if_splits)

lemma indexed_row: "indexed [xs] = map (\<lambda>(j, x). (0, j, x)) (enumerate 0 xs)"
  by (simp add: indexed_def)

lemma set_indexed:
  "(i, j, x) \<in> set (indexed xss) \<longleftrightarrow> i < length xss \<and> j < length (xss ! i) \<and> x = xss ! i ! j"
proof
  assume "(i, j, x) \<in> set (indexed xss)"
  then show "i < length xss \<and> j < length (xss ! i) \<and> x = xss ! i ! j"
    by (auto simp: indexed_def in_set_enumerate_eq)
next
  assume a: "i < length xss \<and> j < length (xss ! i) \<and> x = xss ! i ! j"
  then have "(i, xss ! i) \<in> set (enumerate 0 xss)" and "(j, x) \<in> set (enumerate 0 (xss ! i))"
    by (simp_all add: in_set_enumerate_eq)
  then show "(i, j, x) \<in> set (indexed xss)"
    by (force simp: indexed_def)
qed

lemma replicate_shift5: "replicate a x @ x # x # x # x # x # ys = replicate (a + 5) x @ ys"
  by (induction a) (simp_all add: numeral_eq_Suc)

lemma minMaxLoc_ref_in_range:
  assumes "\<not> mat_empty cm"
  shows "mat_in cm (pt_y (snd (minMaxLoc_ref cm))) (pt_x (snd (minMaxLoc_ref cm)))"
proof -
  from assms obtain r rs where cm: "cm = r # rs" and r: "r \<noteq> []"
    by (cases cm) (auto simp: mat_empty_def mat_rows_def mat_cols_def)
  have "(0, 0, r ! 0) \<in> set (indexed cm)"
    using cm r by (simp add: set_indexed)
  then obtain c cs where ix: "indexed cm = c # cs"
    by (cases "indexed cm") auto
  obtain i j v where res: "min_scan cs c = (i, j, v)" by (cases "min_scan cs c")
  have "(i, j, v) \<in> set (indexed cm)"
    using min_scan_mem [of cs c] res ix by simp
  then have "i < length cm" and "j < length (cm ! i)"
    by (simp_all add: set_indexed)
  then show ?thesis
    by (simp add: minMaxLoc_ref_def ix res mat_in_def mat_rows_def)
qed

lemma minMaxLoc_ref_row:
  assumes "\<forall>x \<in> set rest. \<not> fp_less x (Fin 0)"
  shows "minMaxLoc_ref [replicate a (Fin FLT_MAX) @ Fin 0 # rest] =
         (Fin 0, \<lparr>pt_x = int a, pt_y = 0\<rparr>)"
proof -
  let ?f = "\<lambda>(j, x). (0 :: nat, j :: nat, x :: fp)"
  have tail: "min_scan (map ?f (enumerate k rest)) (0, a, Fin 0) = (0, a, Fin 0)" for k
    using assms by (intro min_scan_keeps) (auto simp: in_set_enumerate_eq)
  show ?thesis
  proof (cases a)
    case 0
    then show ?thesis
      using tail [of 1] by (simp add: minMaxLoc_ref_def indexed_row)
  next
    case (Suc a')
    have M: "0 < FLT_MAX" by (simp add: FLT_MAX_def)
    have skip: "min_scan (map ?f (enumerate k (replicate n (Fin FLT_MAX))) @ cs) (0, 0, Fin FLT_MAX) =
                min_scan cs (0, 0, Fin FLT_MAX)" for k n cs
      by (induction n arbitrary: k) auto
    have "indexed [replicate a (Fin FLT_MAX) @ Fin 0 # rest] =
          (0, 0, Fin FLT_MAX) # map ?f (enumerate 1 (replicate a' (Fin FLT_MAX))) @
          (0, a, Fin 0) # map ?f (enumerate (Suc a) rest)"
      using Suc by (simp add: indexed_row enumerate_append_eq)
    then show ?thesis
      using skip tail M by (simp add: minMaxLoc_ref_def)
  qed
qed

lemma cost_row_ge: "\<forall>x \<in> set (cost_row k). \<not> fp_less x (Fin 0)"
  by (induction k) (auto simp: FLT_MAX_def)

lemma mat_set_row:
  "mat_set [replicate a M @ z # rest] 0 (int a) v = Inr [replicate a M @ v # rest]"
  by (simp add: mat_set_def mat_in_def mat_rows_def list_update_append)

lemma detect_loop_cost_row:
  assumes "ext_minMaxLoc E = minMaxLoc_ref" and "fp_less (Fin 0) th"
  shows "it \<le> maxLoopIterations \<Longrightarrow> maxLoopIterations - it \<le> k \<Longrightarrow>
         \<exists>cm' ds'. detect_loop E t s th it [replicate a (Fin FLT_MAX) @ cost_row k] ds = Inr (cm', ds') \<and>
                   length ds' = length ds + (Suc maxLoopIterations - it)"
proof (induction "maxLoopIterations - it" arbitrary: it k a ds)
  case 0
  obtain rest where row: "cost_row k = Fin 0 # rest" and rest: "\<forall>x \<in> set rest. \<not> fp_less x (Fin 0)"
    using cost_row_ge [of k] by (cases k) auto
  have mm: "ext_minMaxLoc E [replicate a (Fin FLT_MAX) @ cost_row k] = (Fin 0, \<lparr>pt_x = int a, pt_y = 0\<rparr>)"
    by (simp add: assms(1) row minMaxLoc_ref_row [OF rest])
  have st: "mat_set [replicate a (Fin FLT_MAX) @ cost_row k] (pt_y \<lparr>pt_x = int a, pt_y = 0\<rparr>)
              (pt_x \<lparr>pt_x = int a, pt_y = 0\<rparr>) (Fin FLT_MAX) = Inr [replicate a (Fin FLT_MAX) @ Fin FLT_MAX # rest]"
    by (simp add: row mat_set_row)
  have "\<not> it + 1 \<le> maxLoopIterations" and "Suc maxLoopIterations - it = 1"
    using "0.hyps" "0.prems"(1) by simp_all
  then show ?case
    using assms(2) by (simp add: detect_loop_step [OF mm st])
next
  case (Suc n)
  from Suc.hyps(2) Suc.prems obtain k' where k: "k = Suc k'" by (cases k) auto
  let ?rest = "Fin FLT_MAX # Fin FLT_MAX # Fin FLT_MAX # Fin FLT_MAX # cost_row k'"
  have rest: "\<forall>x \<in> set ?rest. \<not> fp_less x (Fin 0)"
    using cost_row_ge [of k'] by (simp add: FLT_MAX_def)
  have row: "cost_row k = Fin 0 # ?rest" by (simp add: k)
  have mm: "ext_minMaxLoc E [replicate a (Fin FLT_MAX) @ cost_row k] = (Fin 0, \<lparr>pt_x = int a, pt_y = 0\<rparr>)"
    unfolding row assms(1) by (rule minMaxLoc_ref_row [OF rest])
  have "replicate a (Fin FLT_MAX) @ Fin FLT_MAX # ?rest = replicate (a + 5) (Fin FLT_MAX) @ cost_row k'"
    by (rule replicate_shift5)
  then have st: "mat_set [replicate a (Fin FLT_MAX) @ cost_row k] (pt_y \<lparr>pt_x = int a, pt_y = 0\<rparr>)
              (pt_x \<lparr>pt_x = int a, pt_y = 0\<rparr>) (Fin FLT_MAX) = Inr [replicate (a + 5) (Fin FLT_MAX) @ cost_row k']"
    unfolding row by (simp add: mat_set_row del: replicate_Suc)
  have n: "n = maxLoopIterations - (it + 1)" and le: "it + 1 \<le> maxLoopIterations"
    and k': "maxLoopIterations - (it + 1) \<le> k'"
    using Suc.hyps(2) Suc.prems k by simp_all
  obtain cm' ds' where
    rec: "detect_loop E t s th (it + 1) [replicate (a + 5) (Fin FLT_MAX) @ cost_row k']
            (ds @ [new_detection t s (Fin 0) \<lparr>pt_x = int a, pt_y = 0\<rparr>]) = Inr (cm', ds')"
    and len: "length ds' = length (ds @ [new_detection t s (Fin 0) \<lparr>pt_x = int a, pt_y = 0\<rparr>]) +
                (Suc maxLoopIterations - (it + 1))"
    using Suc.hyps(1) [OF n le k'] by blast
  show ?case
    using assms(2) le rec len by (simp add: detect_loop_step [OF mm st])
qed

text \<open>
  Claim C4 (the code does otherwise). On a cost map of one row and 501 columns that
  holds the cost 0 at every fifth column, with the threshold 1, the loop of
  \<^verbatim>\<open>detect_impl\<close> runs its body 101 times and emits 101 detections: the test
  \<^verbatim>\<open>iteration <= maxLoopIterations\<close> admits one iteration more than the 100 of the comment.
\<close>

theorem detect_loop_emits_101:
  "length (cost_row 100) = 501 \<and>
   map_sum id (\<lambda>(cm, ds). length ds)
     (detect_loop E_ref (toy_template (gray_image 1 1 [0])) 1 (Fin 1) 0 [cost_row 100] []) = Inr 101"
proof -
  have len: "length (cost_row k) = 5 * k + 1" for k
    by (induction k) simp_all
  have "ext_minMaxLoc E_ref = minMaxLoc_ref" by (simp add: E_ref_def)
  moreover have "fp_less (Fin 0) (Fin 1)" by simp
  ultimately obtain cm' ds' where
    "detect_loop E_ref (toy_template (gray_image 1 1 [0])) 1 (Fin 1) 0
       [replicate 0 (Fin FLT_MAX) @ cost_row 100] [] = Inr (cm', ds')"
    "length ds' = length ([] :: Detection_t list) + (Suc maxLoopIterations - 0)"
    using detect_loop_cost_row [of E_ref "Fin 1" 0 100 "toy_template (gray_image 1 1 [0])" 1 0 "[]"]
    by (auto simp: maxLoopIterations_def)
  then show ?thesis by (simp add: maxLoopIterations_def len)
qed

theorem detect_threshold_monotone_witness:
  "minMaxLoc_in_range E_ref \<and> fp_le (Fin 1) (Fin 3) \<and>
   map_sum id (\<lambda>(m, ds). map m_chamferDist ds)
     (detect E_ref matcher_one_template query_1x1 False (Fin 1) 0 1 1 False) = Inr [] \<and>
   map_sum id (\<lambda>(m, ds). map m_chamferDist ds)
     (detect E_ref matcher_one_template query_1x1 False (Fin 3) 0 1 1 False) = Inr [Fin 2] \<and>
   same_or_more (detect E_ref matcher_one_template query_1x1 False (Fin 1) 0 1 1 False)
                (detect E_ref matcher_one_template query_1x1 False (Fin 3) 0 1 1 False)"
proof -
  have c: "minMaxLoc_in_range E_ref"
    by (simp add: minMaxLoc_in_range_def E_ref_def minMaxLoc_ref_in_range)
  have le: "fp_le (Fin 1) (Fin 3)" by simp
  have r1: "map_sum id (\<lambda>(m, ds). map m_chamferDist ds)
     (detect E_ref matcher_one_template query_1x1 False (Fin 1) 0 1 1 False) = Inr []"
    by code_simp
  have r2: "map_sum id (\<lambda>(m, ds). map m_chamferDist ds)
     (detect E_ref matcher_one_template query_1x1 False (Fin 3) 0 1 1 False) = Inr [Fin 2]"
    by code_simp
  show ?thesis
    using c le r1 r2 detect_threshold_monotone [OF c le] by blast
qed

theorem template_larger_than_query_witness:
  "mat_cols (q_distImg (m_query_info (prepareQuery E_ref matcher_one_template query_1x1))) <
     mat_cols (m_distImg (toy_template (gray_image 2 2 [0, 0, 0, 0]))) \<and>
   computeMatchingMap E_ref (prepareQuery E_ref matcher_one_template query_1x1)
     (toy_template (gray_image 2 2 [0, 0, 0, 0])) [] False 5 5 0 1 1 = Inr [] \<and>
   detect_impl E_ref (prepareQuery E_ref matcher_one_template query_1x1)
     (toy_template (gray_image 2 2 [0, 0, 0, 0])) 1 [] False (Fin 3) 0 1 1 False = Inr []"
proof -
  have h: "mat_cols (q_distImg (m_query_info (prepareQuery E_ref matcher_one_template query_1x1))) <
     mat_cols (m_distImg (toy_template (gray_image 2 2 [0, 0, 0, 0])))"
    by code_simp
  show ?thesis
    using h template_larger_than_query [OF disjI1 [OF h]] by blast
qed

theorem detectMultiScale_pose_fails_fast_witness:
  "m_matchingStrategyType (matcher_one_template\<lparr>m_matchingStrategyType := templatePoseMatching\<rparr>) =
     templatePoseMatching \<and>
   detectMultiScale E_ref (matcher_one_template\<lparr>m_matchingStrategyType := templatePoseMatching\<rparr>)
     query_1x1 False (Fin 3) 0 1 1 False False =
   Inr (matcher_one_template\<lparr>m_matchingStrategyType := templatePoseMatching\<rparr>, [],
        [''Cannot detect on multiple scales with the matching strategy=templatePoseMatching!''])"
proof -
  have h: "m_matchingStrategyType (matcher_one_template\<lparr>m_matchingStrategyType := templatePoseMatching\<rparr>) =
     templatePoseMatching" by simp
  show ?thesis
    using h detectMultiScale_pose_fails_fast [OF h] by blast
qed

subsection \<open>Cost evaluation\<close>

lemma length_indexed: "length (indexed xss) = length (concat xss)"
proof -
  have "length (concat (map (\<lambda>(i, xs). map (\<lambda>(j, x). (i, j, x)) (enumerate 0 xs)) (enumerate k xss))) =
        length (concat xss)" for k
    by (induction xss arbitrary: k) simp_all
  then show ?thesis by (simp add: indexed_def)
qed

lemma map_snd_snd_indexed: "map (\<lambda>c. snd (snd c)) (indexed xss) = concat xss"
proof -
  have inner: "map ((\<lambda>c. snd (snd c)) \<circ> Pair i) (enumerate n xs) = xs"
    for i :: nat and n and xs :: "'a list"
    by (induction xs arbitrary: n) simp_all
  have "map (\<lambda>c. snd (snd c)) (concat (map (\<lambda>(i, xs). map (\<lambda>(j, x). (i, j, x)) (enumerate 0 xs)) (enumerate k xss))) =
        concat xss" for k
    by (induction xss arbitrary: k) (simp_all add: inner)
  then show ?thesis by (simp add: indexed_def)
qed

lemma forward_count:
  "foldR (edge_forward_point E q t ox oy uo l w) cs (s, n) = Inr (s', n') \<Longrightarrow>
   n' = n + int (length cs)"
proof (induction cs arbitrary: s n)
  case Nil
  then show ?case by simp
next
  case (Cons c cs)
  obtain i j p where c: "c = (i, j, p)" by (cases c)
  from Cons.prems obtain s1 n1 where
    step: "edge_forward_point E q t ox oy uo l w c (s, n) = Inr (s1, n1)"
    and rest: "foldR (edge_forward_point E q t ox oy uo l w) cs (s1, n1) = Inr (s', n')"
    by (auto split: sum.splits)
  from step have "n1 = n + 1"
    by (auto simp: c edge_forward_point_def bindR_def Let_def split: if_splits sum.splits)
  with Cons.IH [OF rest] show ?case by simp
qed

lemma backward_count:
  "foldR (edge_backward_point E q t ox oy uo l w) cs (s, n) = Inr (s', n') \<Longrightarrow> n' = n"
proof (induction cs arbitrary: s n)
  case Nil
  then show ?case by simp
next
  case (Cons c cs)
  obtain i j p where c: "c = (i, j, p)" by (cases c)
  from Cons.prems obtain s1 n1 where
    step: "edge_backward_point E q t ox oy uo l w c (s, n) = Inr (s1, n1)"
    and rest: "foldR (edge_backward_point E q t ox oy uo l w) cs (s1, n1) = Inr (s', n')"
    by (auto split: sum.splits)
  from step have "n1 = n"
    by (auto simp: c edge_backward_point_def bindR_def Let_def split: if_splits sum.splits)
  with Cons.IH [OF rest] show ?case by simp
qed

lemma edge_divisor_is_forward_count:
  assumes "m_matchingType m = edgeMatching \<or> m_matchingType m = edgeForwardBackwardMatching"
    and "computeChamferDistance E m t ox oy uo l w_fwd w_bwd = Inr c"
  shows "\<exists>chamfer_dist. c = fp_div chamfer_dist (int (length (concat (m_contours t))))"
proof -
  let ?q = "m_query_info m"
  from assms obtain s1 n1 where
    f: "foldR (edge_forward_point E ?q t ox oy uo l w_fwd) (indexed (m_contours t)) (0, 0) = Inr (s1, n1)"
    by (auto simp: computeChamferDistance_def bindR_def Let_def split: sum.splits)
  have n1: "n1 = int (length (concat (m_contours t)))"
    using forward_count [OF f] by (simp add: length_indexed)
  show ?thesis
  proof (cases "m_matchingType m = edgeForwardBackwardMatching")
    case True
    from assms(2) obtain s2 n2 where
      b: "foldR (edge_backward_point E ?q t ox oy uo l w_bwd) (indexed (q_contours ?q)) (s1, n1) = Inr (s2, n2)"
      and c: "c = fp_div s2 n2"
      using True f by (auto simp: computeChamferDistance_def bindR_def Let_def split: sum.splits)
    from backward_count [OF b] have "n2 = n1" .
    then show ?thesis using c n1 by auto
  next
    case False
    then have "c = fp_div s1 n1"
      using assms f by (auto simp: computeChamferDistance_def bindR_def Let_def)
    then show ?thesis using n1 by auto
  qed
qed

text \<open>
  Claim C2 (the code does otherwise). Forward and backward edge matching with one
  template contour pixel (query distance 4, weight 2) and one query contour pixel in the
  footprint (template distance 10, weight 3): the code returns \<open>(2 * 4 + 3 * 10) / 1\<close>,
  the sum divided by the number of forward pixels alone; divided by the two contributing
  pixels it would be 19.
\<close>

theorem backward_pixels_not_counted:
  "computeChamferDistance E_ref fb_matcher fb_template 1 0 True 1 2 3 = Inr (Fin 38) \<and>
   fp_div (2 * 4 + 3 * 10) 1 = Fin 38 \<and> fp_div (2 * 4 + 3 * 10) (1 + 1) = Fin 19"
  by code_simp

text \<open>
  Claim C8 (the code does otherwise). At the offset \<open>(1, 0)\<close>, for the query contour
  pixel \<open>(1, 0)\<close>, the backward term with orientation reads the template's distance field
  at the corrected coordinate \<open>(0, 0)\<close>, value 10; without orientation it reads it at the
  query coordinate \<open>(1, 0)\<close>, value 20 (the forward weight is 0 here).
\<close>

theorem backward_offset_not_applied:
  "computeChamferDistance E_ref fb_matcher fb_template 1 0 True 1 0 1 = Inr (Fin 10) \<and>
   computeChamferDistance E_ref fb_matcher fb_template 1 0 False 1 0 1 = Inr (Fin 20) \<and>
   mat_at (m_distImg fb_template) (0 - 0) (1 - 1) = Inr 10 \<and>
   mat_at (m_distImg fb_template) 0 1 = Inr 20"
  by code_simp

text \<open>
  Claim C3, as stated, fails: edge matching of a template without contour points, and
  masked matching with an empty mask, return NaN, which is neither infinite nor the
  maximum.
\<close>

theorem zero_pixels_counterexample:
  "no_pixel_edge E_ref (fb_matcher\<lparr>m_matchingType := edgeMatching\<rparr>) bare_template 1 0 \<and>
   computeChamferDistance E_ref (fb_matcher\<lparr>m_matchingType := edgeMatching\<rparr>) bare_template 1 0 False 1 1 1
     = Inr NaN \<and>
   no_pixel_full (fb_matcher\<lparr>m_matchingType := maskMatching\<rparr>) bare_template 1 0 \<and>
   computeFullChamferDistance (fb_matcher\<lparr>m_matchingType := maskMatching\<rparr>) bare_template 1 0 False 1
     = Inr NaN \<and>
   NaN \<noteq> PInf \<and> NaN \<noteq> Fin FLT_MAX"
  by code_simp

lemma foldR_backward_outside:
  "filter (in_footprint t ox oy) (map (\<lambda>c. snd (snd c)) cs) = [] \<Longrightarrow>
   foldR (edge_backward_point E q t ox oy uo l w) cs acc = Inr acc"
proof (induction cs)
  case Nil
  then show ?case by simp
next
  case (Cons c cs)
  obtain i j p where c: "c = (i, j, p)" by (cases c)
  obtain s n where acc: "acc = (s, n)" by (cases acc)
  from Cons.prems have out: "\<not> in_footprint t ox oy p"
    and rest: "filter (in_footprint t ox oy) (map (\<lambda>c. snd (snd c)) cs) = []"
    by (auto simp: c split: if_splits)
  from out have "edge_backward_point E q t ox oy uo l w c acc = Inr acc"
    by (auto simp: c acc edge_backward_point_def in_footprint_def Let_def)
  then show ?case using Cons.IH [OF rest] by simp
qed

lemma indexed_empty: "concat xss = [] \<Longrightarrow> indexed xss = []"
  by (metis length_indexed length_0_conv)

lemma no_pixel_edge_NaN:
  assumes "no_pixel_edge E m t ox oy"
  shows "computeChamferDistance E m t ox oy uo l w_fwd w_bwd = Inr NaN"
proof -
  consider (l) "m_matchingType m = lineMatching" | (lfb) "m_matchingType m = lineForwardBackwardMatching"
    | (efb) "m_matchingType m = edgeForwardBackwardMatching"
    | (e) "m_matchingType m \<noteq> lineMatching" "m_matchingType m \<noteq> lineForwardBackwardMatching"
          "m_matchingType m \<noteq> edgeForwardBackwardMatching"
    by blast
  then show ?thesis
  proof cases
    case l
    then show ?thesis using assms
      by (simp add: no_pixel_edge_def computeChamferDistance_def bindR_def fp_div_def)
  next
    case lfb
    then show ?thesis using assms
      by (simp add: no_pixel_edge_def computeChamferDistance_def bindR_def fp_div_def)
  next
    case efb
    with assms have a: "concat (m_contours t) = []"
      and b: "filter (in_footprint t ox oy) (concat (q_contours (m_query_info m))) = []"
      by (simp_all add: no_pixel_edge_def)
    have "foldR (edge_backward_point E (m_query_info m) t ox oy uo l w_bwd)
            (indexed (q_contours (m_query_info m))) (0, 0) = Inr (0, 0)"
      by (rule foldR_backward_outside) (simp add: map_snd_snd_indexed b)
    then show ?thesis using efb a
      by (simp add: computeChamferDistance_def bindR_def fp_div_def indexed_empty)
  next
    case e
    with assms have a: "concat (m_contours t) = []"
      by (simp add: no_pixel_edge_def)
    then show ?thesis using e
      by (simp add: computeChamferDistance_def bindR_def fp_div_def indexed_empty)
  qed
qed


lemma countNonZero_zero: "countNonZero msk = 0 \<longleftrightarrow> (\<forall>r \<in> set msk. \<forall>b \<in> set r. b = 0)"
  by (auto simp: countNonZero_def filter_empty_conv)

lemma copy_masked_zero:
  assumes "copy_masked src msk = Inr r" and "countNonZero msk = 0"
  shows "\<forall>v \<in> set (concat r). v = 0"
proof -
  from assms(1) have r: "r = map (\<lambda>(r, mr). map (\<lambda>(v, b). if b \<noteq> 0 then v else 0) (zip r mr)) (zip src msk)"
    by (auto simp: copy_masked_def split: if_splits)
  have z: "\<forall>mr \<in> set msk. \<forall>b \<in> set mr. b = 0"
    using assms(2) by (simp add: countNonZero_zero)
  show ?thesis
    unfolding r using z by (auto dest!: set_zip_rightD)
qed

lemma sum_list_all_zero:
  "(\<And>x. x \<in> set xs \<Longrightarrow> f x = (0 :: rat)) \<Longrightarrow> sum_list (map f xs) = 0"
  by (induction xs) simp_all

lemma sum_absdiff_zero:
  assumes "sum_absdiff a b = Inr s" and "\<forall>v \<in> set (concat a). v = 0" and "\<forall>v \<in> set (concat b). v = 0"
  shows "s = 0"
proof -
  from assms(1) have s: "s = sum_list (map (\<lambda>(u, v). \<bar>u - v\<bar>) (zip (concat a) (concat b)))"
    by (auto simp: sum_absdiff_def split: if_splits)
  have "(\<lambda>(u, v). \<bar>u - v\<bar>) p = 0" if "p \<in> set (zip (concat a) (concat b))" for p
  proof -
    obtain u v where p: "p = (u, v)" by (cases p)
    have "u \<in> set (concat a)" and "v \<in> set (concat b)"
      using that unfolding p by (rule set_zip_leftD, rule set_zip_rightD)
    then have "u = 0" and "v = 0" using assms(2,3) by blast+
    then show ?thesis by (simp add: p)
  qed
  then have "sum_list (map (\<lambda>(u, v). \<bar>u - v\<bar>) (zip (concat a) (concat b))) = 0"
    by (rule sum_list_all_zero)
  then show ?thesis using s by simp
qed

lemma bitwise_or_zero:
  assumes "bitwise_or_mat a b = Inr c" and "countNonZero a = 0" and "countNonZero b = 0"
  shows "countNonZero c = 0"
proof -
  from assms(1) have c: "c = map (\<lambda>(r, s). map (\<lambda>(u, v). u OR v) (zip r s)) (zip a b)"
    by (auto simp: bitwise_or_mat_def split: if_splits)
  have za: "\<forall>r \<in> set a. \<forall>x \<in> set r. x = 0" and zb: "\<forall>r \<in> set b. \<forall>x \<in> set r. x = 0"
    using assms(2,3) by (simp_all add: countNonZero_zero)
  show ?thesis
    unfolding countNonZero_zero c
  proof (intro ballI)
    fix r x assume r: "r \<in> set (map (\<lambda>(r, s). map (\<lambda>(u, v). u OR v) (zip r s)) (zip a b))" and x: "x \<in> set r"
    from r obtain ra rb where rab: "(ra, rb) \<in> set (zip a b)" and r': "r = map (\<lambda>(u, v). u OR v) (zip ra rb)"
      by auto
    from x r' obtain u v where uv: "(u, v) \<in> set (zip ra rb)" and x': "x = u OR v" by auto
    have "ra \<in> set a" "rb \<in> set b" using rab by (auto dest: set_zip_leftD set_zip_rightD)
    moreover have "u \<in> set ra" "v \<in> set rb" using uv by (auto dest: set_zip_leftD set_zip_rightD)
    ultimately have "u = 0" "v = 0" using za zb by auto
    then show "x = 0" using x' by simp
  qed
qed

lemma mat_roi_empty:
  assumes "mat_roi m x y w h = Inr sub" and "h = 0 \<or> w = 0"
  shows "concat sub = [] \<and> mat_rows sub * mat_cols sub = 0"
proof -
  from assms(1) have sub: "sub = map (\<lambda>r. take (nat w) (drop (nat x) r)) (take (nat h) (drop (nat y) m))"
    by (auto simp: mat_roi_def split: if_splits)
  show ?thesis
  proof (cases "h = 0")
    case True
    then show ?thesis by (simp add: sub mat_rows_def)
  next
    case False
    then have w: "w = 0" using assms(2) by simp
    have rows: "\<forall>r \<in> set sub. r = []" by (auto simp: sub w)
    then have "mat_cols sub = 0" by (cases sub) (auto simp: mat_cols_def)
    then show ?thesis using rows by simp
  qed
qed

lemma sum_absdiff_empty:
  assumes "sum_absdiff a b = Inr s" and "concat a = []"
  shows "s = 0"
proof -
  from assms(1) have "s = sum_list (map (\<lambda>(u, v). \<bar>u - v\<bar>) (zip (concat a) (concat b)))"
    by (auto simp: sum_absdiff_def split: if_splits)
  also have "zip (concat a) (concat b) = []" by (simp only: assms(2) zip_Nil)
  finally show ?thesis by simp
qed

lemma no_pixel_full_NaN:
  assumes "no_pixel_full m t ox oy" and "computeFullChamferDistance m t ox oy uo l = Inr c"
  shows "c = NaN"
proof -
  let ?q = "m_query_info m"
  let ?w = "mat_cols (m_distImg t)" and ?h = "mat_rows (m_distImg t)"
  from assms(2) obtain sub subOri where
    sub: "mat_roi (q_distImg ?q) ox oy ?w ?h = Inr sub" and
    subOri: "mat_roi (q_mapOfEdgeOrientation ?q) ox oy ?w ?h = Inr subOri"
    by (auto simp: computeFullChamferDistance_def bindR_def Let_def split: sum.splits)
  show ?thesis
  proof (cases "m_matchingType m = fullMatching")
    case True
    with assms(1) have e: "?h = 0 \<or> ?w = 0" by (auto simp: no_pixel_full_def)
    have es: "concat sub = []" "mat_rows sub * mat_cols sub = 0"
      using mat_roi_empty [OF sub e] by simp_all
    have eo: "concat subOri = []" using mat_roi_empty [OF subOri e] by simp
    from assms(2) obtain s1 where s1: "sum_absdiff sub (m_distImg t) = Inr s1"
      using True sub subOri
      by (auto simp: computeFullChamferDistance_def bindR_def Let_def split: sum.splits)
    have z1: "s1 = 0" using sum_absdiff_empty [OF s1 es(1)] .
    show ?thesis
    proof (cases uo)
      case uo: True
      from assms(2) obtain s2 where s2: "sum_absdiff subOri (m_mapOfEdgeOrientation t) = Inr s2"
        using True sub subOri s1 uo
        by (auto simp: computeFullChamferDistance_def bindR_def Let_def split: sum.splits)
      have z2: "s2 = 0" using sum_absdiff_empty [OF s2 eo] .
      show ?thesis
        using assms(2) True sub subOri s1 s2 z1 z2 es(2) uo
        by (auto simp: computeFullChamferDistance_def bindR_def Let_def fp_div_def)
    next
      case False
      then show ?thesis
        using assms(2) True sub subOri s1 z1 es(2)
        by (auto simp: computeFullChamferDistance_def bindR_def Let_def fp_div_def)
    qed
  next
    case nf: False
    define cmr where "cmr = (if m_matchingType m = forwardBackwardMaskMatching
               then bindR (mat_roi (q_mask ?q) ox oy ?w ?h)
                      (\<lambda>query_mask. bitwise_or_mat (m_mask t) query_mask)
               else Inr (m_mask t))"
    from assms(2) obtain cm where cm: "cmr = Inr cm"
      using nf sub subOri
      by (auto simp: cmr_def computeFullChamferDistance_def bindR_def Let_def split: sum.splits)
    have zero: "countNonZero cm = 0"
    proof (cases "m_matchingType m = forwardBackwardMaskMatching")
      case True
      from cm True obtain qm where qm: "mat_roi (q_mask ?q) ox oy ?w ?h = Inr qm"
        and orr: "bitwise_or_mat (m_mask t) qm = Inr cm"
        by (auto simp: cmr_def bindR_def split: sum.splits)
      from assms(1) True nf qm have "countNonZero (m_mask t) = 0" "countNonZero qm = 0"
        by (simp_all add: no_pixel_full_def)
      then show ?thesis using bitwise_or_zero [OF orr] by simp
    next
      case False
      then show ?thesis using cm assms(1) nf by (simp add: cmr_def no_pixel_full_def)
    qed
    from assms(2) obtain a b s1 where
      a: "copy_masked sub cm = Inr a" and b: "copy_masked (m_distImg t) cm = Inr b"
      and s1: "sum_absdiff a b = Inr s1"
      using nf sub subOri cm
      by (auto simp: cmr_def computeFullChamferDistance_def bindR_def Let_def split: sum.splits)
    have z1: "s1 = 0"
      using sum_absdiff_zero [OF s1 copy_masked_zero [OF a zero] copy_masked_zero [OF b zero]] .
    show ?thesis
    proof (cases uo)
      case uo: True
      from assms(2) obtain a2 b2 s2 where
        a2: "copy_masked subOri cm = Inr a2" and b2: "copy_masked (m_mapOfEdgeOrientation t) cm = Inr b2"
        and s2: "sum_absdiff a2 b2 = Inr s2"
        using nf sub subOri cm a b s1 uo
        by (auto simp: cmr_def computeFullChamferDistance_def bindR_def Let_def split: sum.splits)
      have z2: "s2 = 0"
        using sum_absdiff_zero [OF s2 copy_masked_zero [OF a2 zero] copy_masked_zero [OF b2 zero]] .
      show ?thesis
        using assms(2) nf sub subOri cm a b s1 a2 b2 s2 z1 z2 zero uo
        by (simp add: cmr_def computeFullChamferDistance_def bindR_def Let_def fp_div_def)
    next
      case False
      then show ?thesis
        using assms(2) nf sub subOri cm a b s1 z1 zero
        by (simp add: cmr_def computeFullChamferDistance_def bindR_def Let_def fp_div_def)
    qed
  qed
qed

text \<open>
  Claim C3, amended. When no pixel contributes to the sum, the division by zero does not
  crash: \<^verbatim>\<open>computeChamferDistance\<close> returns NaN, and \<^verbatim>\<open>computeFullChamferDistance\<close>, when it
  returns, returns NaN; NaN is below no distance threshold.
\<close>

theorem zero_pixels_give_NaN:
  "(no_pixel_edge E m t offsetX offsetY \<longrightarrow>
      computeChamferDistance E m t offsetX offsetY useOrientation lambda w_fwd w_bwd = Inr NaN) \<and>
   (no_pixel_full m t offsetX offsetY \<longrightarrow>
      computeFullChamferDistance m t offsetX offsetY useOrientation lambda = Inr c \<longrightarrow> c = NaN) \<and>
   \<not> fp_less NaN distanceThresh"
  using no_pixel_edge_NaN no_pixel_full_NaN by auto

theorem zero_pixels_give_NaN_witness:
  "no_pixel_edge E_ref (fb_matcher\<lparr>m_matchingType := edgeMatching\<rparr>) bare_template 1 0 \<and>
   computeChamferDistance E_ref (fb_matcher\<lparr>m_matchingType := edgeMatching\<rparr>) bare_template 1 0
     True 1 1 1 = Inr NaN \<and>
   no_pixel_full (fb_matcher\<lparr>m_matchingType := maskMatching\<rparr>) bare_template 1 0 \<and>
   computeFullChamferDistance (fb_matcher\<lparr>m_matchingType := maskMatching\<rparr>) bare_template 1 0
     True 1 = Inr NaN \<and>
   \<not> fp_less NaN (Fin 3)"
proof -
  have e: "no_pixel_edge E_ref (fb_matcher\<lparr>m_matchingType := edgeMatching\<rparr>) bare_template 1 0"
    by code_simp
  have f: "no_pixel_full (fb_matcher\<lparr>m_matchingType := maskMatching\<rparr>) bare_template 1 0"
    by code_simp
  have r: "computeFullChamferDistance (fb_matcher\<lparr>m_matchingType := maskMatching\<rparr>) bare_template 1 0
     True 1 = Inr NaN"
    by code_simp
  show ?thesis
    using e f r
      zero_pixels_give_NaN [of E_ref "fb_matcher\<lparr>m_matchingType := edgeMatching\<rparr>" bare_template 1 0
        True 1 1 1 NaN "Fin 3"]
    by blast
qed

subsection \<open>The template store\<close>


















lemma same_settings_trans: "same_settings m m' \<Longrightarrow> same_settings m' m'' \<Longrightarrow> same_settings m m''"
  by (simp add: same_settings_def)

lemma same_settings_set: "same_settings m (set_template_info m i scale t)"
  by (simp add: same_settings_def set_template_info_def)

















text \<open>
  The two conditions on the loading matcher are needed. After \<^verbatim>\<open>setScale(0.5f, 2.0f, 1e-9f)\<close>
  the sum \<^verbatim>\<open>0.5f + 1e-9f\<close> rounds to \<^verbatim>\<open>0.5f\<close>: the loop over the scales of line 1010 never
  ends. On an image in which \<^verbatim>\<open>cv::findContours\<close> finds nothing, line 555 reads an empty
  vector.
\<close>

lemma tiny_step_never_advances:
  "float_round (1 / 2 + m_scaleStep tiny_step_matcher) = 1 / 2 \<and>
   loadTemplateData E_ref tiny_step_matcher ''templates.bin''
     (Some [1, 0, 0, 0,  7, 0, 0, 0,  1, 0, 0, 0,  1, 0, 0, 0,  1, 0, 0, 0,  1,
            3, 0, 0, 0,  4, 0, 0, 0,  2, 0, 0, 0,  2, 0, 0, 0,
            0, 0, 0, 0,  0, 0, 0, 0,  0, 0, 0, 0,  0, 0, 0, 0]) = Inl NonTermination"
  by code_simp

lemma no_contour_undefined:
  "prepareTemplate E_blank ChamferMatcher_init (gray_image 1 1 [1]) = Inl UndefinedBehaviour"
  by code_simp

text \<open>
  With the settings of the constructor the variable of the loop takes fifteen values,
  \<^verbatim>\<open>0.5f\<close> and fourteen sums. The fifth sum is \<open>1 + 1 / 2 ^ 23\<close>, which the test of the loop
  skips; the fifteenth is \<open>2 + 1 / 2 ^ 22\<close>, above \<^verbatim>\<open>m_scaleMax\<close>, so that the scale 2 is not
  visited.
\<close>

lemma scale_sums:
  "((\<lambda>scale. float_round (scale + m_scaleStep ChamferMatcher_init)) ^^ 5) (m_scaleMin ChamferMatcher_init) =
     8388609 / 8388608 \<and>
   \<not> far_from_one ChamferMatcher_init (8388609 / 8388608) \<and>
   ((\<lambda>scale. float_round (scale + m_scaleStep ChamferMatcher_init)) ^^ 14) (m_scaleMin ChamferMatcher_init) =
     7969179 / 4194304 \<and>
   ((\<lambda>scale. float_round (scale + m_scaleStep ChamferMatcher_init)) ^^ 15) (m_scaleMin ChamferMatcher_init) =
     8388609 / 4194304 \<and>
   7969179 / 4194304 \<le> m_scaleMax ChamferMatcher_init \<and>
   m_scaleMax ChamferMatcher_init < 8388609 / 4194304"
proof -
  let ?f = "\<lambda>scale. float_round (scale + m_scaleStep ChamferMatcher_init)"
  have s0: "m_scaleMin ChamferMatcher_init = 1 / 2" by (simp add: ChamferMatcher_init_def)
  have s1: "?f (1 / 2) = 5033165 / 8388608" by code_simp
  have s2: "?f (5033165 / 8388608) = 2936013 / 4194304" by code_simp
  have s3: "?f (2936013 / 4194304) = 6710887 / 8388608" by code_simp
  have s4: "?f (6710887 / 8388608) = 1887437 / 2097152" by code_simp
  have s5: "?f (1887437 / 2097152) = 8388609 / 8388608" by code_simp
  have s6: "?f (8388609 / 8388608) = 4613735 / 4194304" by code_simp
  have s7: "?f (4613735 / 4194304) = 10066331 / 8388608" by code_simp
  have s8: "?f (10066331 / 8388608) = 1363149 / 1048576" by code_simp
  have s9: "?f (1363149 / 1048576) = 11744053 / 8388608" by code_simp
  have s10: "?f (11744053 / 8388608) = 6291457 / 4194304" by code_simp
  have s11: "?f (6291457 / 4194304) = 13421775 / 8388608" by code_simp
  have s12: "?f (13421775 / 8388608) = 3565159 / 2097152" by code_simp
  have s13: "?f (3565159 / 2097152) = 15099497 / 8388608" by code_simp
  have s14: "?f (15099497 / 8388608) = 7969179 / 4194304" by code_simp
  have s15: "?f (7969179 / 4194304) = 8388609 / 4194304" by code_simp
  have far: "\<not> far_from_one ChamferMatcher_init (8388609 / 8388608)" by code_simp
  have smax: "m_scaleMax ChamferMatcher_init = 2" by (simp add: ChamferMatcher_init_def)
  have five: "(?f ^^ 5) (1 / 2) = 8388609 / 8388608"
    by (simp only: eval_nat_numeral BitM.simps numeral_One One_nat_def funpow.simps o_apply id_apply s1 s2 s3 s4 s5)
  have fourteen: "(?f ^^ 14) (1 / 2) = 7969179 / 4194304"
    by (simp only: eval_nat_numeral BitM.simps numeral_One One_nat_def funpow.simps o_apply id_apply
        s1 s2 s3 s4 s5 s6 s7 s8 s9 s10 s11 s12 s13 s14)
  have fifteen: "(?f ^^ 15) (1 / 2) = 8388609 / 4194304"
    by (simp only: eval_nat_numeral BitM.simps numeral_One One_nat_def funpow.simps o_apply id_apply
        s1 s2 s3 s4 s5 s6 s7 s8 s9 s10 s11 s12 s13 s14 s15)
  show ?thesis
    unfolding s0 smax using five far fourteen fifteen by simp
qed

text \<open>
  \<^verbatim>\<open>setTemplateImages\<close> on a matcher builds what the constructor builds from the same
  settings: the matcher with both maps emptied goes through the constructor's loop.
\<close>

lemma setTemplateImages_as_constructor:
  "setTemplateImages E ChamferMatcher_init images rois = ChamferMatcher_with E images rois"
  by (simp add: setTemplateImages_def ChamferMatcher_with_def ChamferMatcher_init_def)

text \<open>
  Claim C1, as stated, fails: after a call with two images and one pair of rectangles,
  the template configured before is gone.
\<close>

theorem size_mismatch_counterexample:
  "setTemplateImages E_ref narrow_matcher [(7, gray_2x2)] rois_7 = Inr (configured gray_2x2, []) \<and>
   map fst (m_mapOfTemplateImages (configured gray_2x2)) = [7] \<and>
   map fst (m_mapOfTemplate_info (configured gray_2x2)) = [7] \<and>
   map_sum id (\<lambda>(m, lines). (m_mapOfTemplateImages m, m_mapOfTemplate_info m, lines))
     (setTemplateImages E_ref (configured gray_2x2) [(7, gray_2x2), (8, gray_2x2)] rois_7) =
     Inr ([], [], [''Different size between templates and rois!''])"
  by code_simp

text \<open>
  Claim C1, amended. When the two maps given to \<^verbatim>\<open>setTemplateImages\<close> differ in size, the
  call reports the mismatch on \<^verbatim>\<open>std::cerr\<close>, stores nothing of its arguments and leaves
  the template images and the template information empty; every other member of the
  matcher is unchanged.
\<close>

theorem setTemplateImages_size_mismatch:
  assumes "length mapOfTemplateImages \<noteq> length mapOfTemplateRois"
  shows "setTemplateImages E m mapOfTemplateImages mapOfTemplateRois =
         Inr (m\<lparr>m_mapOfTemplate_info := [], m_mapOfTemplateImages := []\<rparr>,
              [''Different size between templates and rois!''])"
  using assms by (simp add: setTemplateImages_def)

theorem setTemplateImages_size_mismatch_witness:
  "length [(7, gray_2x2), (8, gray_2x2)] \<noteq> length rois_7 \<and>
   setTemplateImages E_ref (configured gray_2x2) [(7, gray_2x2), (8, gray_2x2)] rois_7 =
     Inr ((configured gray_2x2)\<lparr>m_mapOfTemplate_info := [], m_mapOfTemplateImages := []\<rparr>,
          [''Different size between templates and rois!''])"
proof -
  have h: "length [(7, gray_2x2), (8, gray_2x2)] \<noteq> length rois_7" by (simp add: rois_7_def)
  show ?thesis
    using h setTemplateImages_size_mismatch [OF h] by blast
qed

end
